theory Spec2Isabelle
  imports
    Complex_Main
    "HOL-Library.Sublist"
    "HOL-Library.List_Lexorder"
    "HOL-Library.Char_ord"
    "HOL-Library.AList"
    "HOL-Library.Multiset"
begin

section \<open>Strings of the worker\<close>

text \<open>
  Strings are lists of 8-bit characters. The string methods the worker calls are given
  their JavaScript names; \<open>split\<close> and \<open>join\<close> are on a one-character separator, which
  is how the worker uses them. \<open>substring n\<close> is \<open>drop n\<close>.
\<close>

definition startsWith :: "string \<Rightarrow> string \<Rightarrow> bool" where
  "startsWith s p = prefix p s"

definition endsWith :: "string \<Rightarrow> string \<Rightarrow> bool" where
  "endsWith s e = suffix e s"

definition includes_str :: "string \<Rightarrow> string \<Rightarrow> bool" where
  "includes_str s p = sublist p s"

fun split_on :: "char \<Rightarrow> string \<Rightarrow> string list" where
  "split_on d [] = [[]]"
| "split_on d (c # cs) =
     (if c = d then [] # split_on d cs
      else (case split_on d cs of [] \<Rightarrow> [[c]] | w # ws \<Rightarrow> (c # w) # ws))"

fun join_with :: "string \<Rightarrow> string list \<Rightarrow> string" where
  "join_with d [] = []"
| "join_with d [x] = x"
| "join_with d (x # y # ys) = x @ d @ join_with d (y # ys)"

text \<open>An array read \<open>xs[i]\<close>: \<open>undefined\<close> (here \<open>None\<close>) out of range.\<close>

definition nth_opt :: "'a list \<Rightarrow> nat \<Rightarrow> 'a option" where
  "nth_opt xs i = (if i < length xs then Some (xs ! i) else None)"

text \<open>\<open>s.replace(/\<bslash>./g, '/')\<close> and \<open>s.replace(/\<bslash>//g, '.')\<close>: every occurrence.\<close>

definition replace_all :: "char \<Rightarrow> char \<Rightarrow> string \<Rightarrow> string" where
  "replace_all a b s = map (\<lambda>c. if c = a then b else c) s"

fun lastIndexOf :: "char \<Rightarrow> string \<Rightarrow> nat option" where
  "lastIndexOf d [] = None"
| "lastIndexOf d (c # cs) =
     (case lastIndexOf d cs of
        Some i \<Rightarrow> Some (Suc i)
      | None \<Rightarrow> (if c = d then Some 0 else None))"

text \<open>\<open>String(n)\<close> for an integral number: its decimal digits, with a sign when negative.\<close>

definition digit_char :: "nat \<Rightarrow> char" where
  "digit_char d = ''0123456789'' ! (d mod 10)"

fun string_of_nat :: "nat \<Rightarrow> string" where
  "string_of_nat n =
     (if n < 10 then [digit_char n] else string_of_nat (n div 10) @ [digit_char (n mod 10)])"

definition string_of_int :: "int \<Rightarrow> string" where
  "string_of_int i = (if i < 0 then CHR ''-'' # string_of_nat (nat (- i)) else string_of_nat (nat i))"

definition padStart :: "nat \<Rightarrow> char \<Rightarrow> string \<Rightarrow> string" where
  "padStart n c s = replicate (n - length s) c @ s"

section \<open>Values\<close>

text \<open>
  A JavaScript number is \<open>NaN\<close>, an infinity or a finite value. Finite values are kept as
  exact rationals: the model agrees with the IEEE doubles of the engine wherever the
  doubles are exact, which covers every integer below \<open>2^53\<close>, and it does not model the
  sign of zero, which none of the code below can observe.

  A \<open>jsval\<close> is what the XML parser can hand over for the text of an element. The worker
  creates the parser with the options \<open>ignoreAttributes\<close> and \<open>attributeNamePrefix\<close> only
  (\<open>part_004\<close>, lines 3 to 6), so the parsing of tag values is on: a text that reads as a
  number, such as \<open>1.0\<close> or \<open>20250121.143052\<close>, arrives as that number and not as a string,
  and \<open>true\<close> and \<open>false\<close> arrive as booleans. The cast \<open>as MavenMetadata\<close> checks nothing.
  \<open>falsy\<close> is what \<open>!v\<close> and \<open>v || w\<close> test, and \<open>strict_eq\<close> is \<open>v === w\<close> for a \<open>w\<close> that may
  be undefined.
\<close>

datatype jsnum = NaN | NegInf | Fin rat | PosInf

datatype jsval = JString string | JNumber jsnum | JBool bool

definition falsy :: "jsval \<Rightarrow> bool" where
  "falsy v =
     (case v of JString s \<Rightarrow> s = [] | JNumber n \<Rightarrow> n = NaN \<or> n = Fin 0 | JBool t \<Rightarrow> \<not> t)"

definition strict_eq :: "jsval \<Rightarrow> jsval option \<Rightarrow> bool" where
  "strict_eq v w = (w = Some v \<and> v \<noteq> JNumber NaN)"

section \<open>Exceptions, requests, responses\<close>

datatype exn =
    InvalidCharacterError
  | XmlParseError
  | TypeError
  | StorageError string

record request =
  pathname :: string
  authorization :: "string option"
  searchParams :: "(string \<times> string) list"
  body :: string

record env =
  MAVEN_PUBLISH_USERNAME :: "string option"
  MAVEN_PUBLISH_PASSWORD :: "string option"

datatype payload =
    Text string
  | JsonError string
  | JsonVersions "(jsval \<times> bool \<times> bool) list"
  | JsonPurge bool "string list" "string list option"
  | JsonSnapshot string string int

record response =
  status :: nat
  payload :: payload

definition jsonResponse :: "payload \<Rightarrow> response" where
  "jsonResponse d = \<lparr>status = 200, payload = d\<rparr>"

definition errorResponse :: "string \<Rightarrow> nat \<Rightarrow> response" where
  "errorResponse message st = \<lparr>status = st, payload = JsonError message\<rparr>"

definition unauthorizedResponse :: response where
  "unauthorizedResponse = \<lparr>status = 401, payload = Text ''Authentication required''\<rparr>"

definition okResponse :: response where
  "okResponse = \<lparr>status = 200, payload = Text ''OK''\<rparr>"

section \<open>Authentication\<close>

text \<open>
  \<open>atob\<close> is the platform's base64 decoder (the forgiving-base64 decode of the WHATWG
  Infra standard): ASCII white space is dropped, one or two trailing \<open>=\<close> are dropped when
  the length is a multiple of four, and a remaining length of 1 modulo 4 or a character
  outside the alphabet makes it throw \<open>InvalidCharacterError\<close>, here \<open>None\<close>.
\<close>

definition b64_alphabet :: string where
  "b64_alphabet = ''ABCDEFGHIJKLMNOPQRSTUVWXYZabcdefghijklmnopqrstuvwxyz0123456789+/''"

fun index_of :: "'a \<Rightarrow> 'a list \<Rightarrow> nat" where
  "index_of x [] = 0"
| "index_of x (y # ys) = (if x = y then 0 else Suc (index_of x ys))"

fun b64_bytes :: "nat list \<Rightarrow> nat list" where
  "b64_bytes (a # b # c # d # rest) =
     (let n = ((a * 64 + b) * 64 + c) * 64 + d
      in [n div 65536, n div 256 mod 256, n mod 256] @ b64_bytes rest)"
| "b64_bytes [a, b, c] = (let n = (a * 64 + b) * 64 + c in [n div 1024, n div 4 mod 256])"
| "b64_bytes [a, b] = [(a * 64 + b) div 16]"
| "b64_bytes _ = []"

definition strip_padding :: "string \<Rightarrow> string" where
  "strip_padding d =
     (if length d mod 4 = 0 then
        (if endsWith d ''=='' then take (length d - 2) d
         else if endsWith d ''='' then take (length d - 1) d
         else d)
      else d)"

definition atob :: "string \<Rightarrow> string option" where
  "atob s =
     (let d = strip_padding
                (filter (\<lambda>c. c \<notin> set [CHR 0x09, CHR 0x0A, CHR 0x0C, CHR 0x0D, CHR '' '']) s)
      in if length d mod 4 = 1 \<or> (\<exists>c \<in> set d. c \<notin> set b64_alphabet) then None
         else Some (map char_of (b64_bytes (map (\<lambda>c. index_of c b64_alphabet) d))))"

text \<open>
  \<open>validateBasicAuth\<close> (the same text in every version of the worker). The destructuring
  \<open>[providedUsername, providedPassword] = decoded.split(':')\<close> reads the first two
  segments; the second is \<open>undefined\<close> when the decoded string has no colon.
\<close>

definition validateBasicAuth :: "request \<Rightarrow> env \<Rightarrow> exn + bool" where
  "validateBasicAuth request env =
     (case authorization request of
        None \<Rightarrow> Inr False
      | Some authHeader \<Rightarrow>
          if authHeader = [] \<or> \<not> startsWith authHeader ''Basic '' then Inr False
          else
            (case (MAVEN_PUBLISH_USERNAME env, MAVEN_PUBLISH_PASSWORD env) of
               (Some username, Some password) \<Rightarrow>
                 if username = [] \<or> password = [] then Inr False
                 else
                   (case atob (drop 6 authHeader) of
                      None \<Rightarrow> Inl InvalidCharacterError
                    | Some decoded \<Rightarrow>
                        (let parts = split_on CHR '':'' decoded;
                             providedUsername = nth_opt parts 0;
                             providedPassword = nth_opt parts 1
                         in Inr (providedUsername = Some username
                                 \<and> providedPassword = Some password)))
             | _ \<Rightarrow> Inr False))"

section \<open>The object store\<close>

text \<open>
  The R2 bucket: a flat map from keys to blobs, kept as an association list. Every bucket
  operation may throw; \<open>faults\<close> is the schedule of the operations to come, \<open>Some m\<close> for
  one that throws an error with message \<open>m\<close>, and an exhausted schedule means no failure.
  A throwing operation changes no object. \<open>list_limit\<close> is the page size of a listing that
  asks for no limit (1000 on R2).
\<close>

record bucket =
  objects :: "(string \<times> string) list"
  faults :: "string option list"
  list_limit :: nat

definition r2_fault :: "bucket \<Rightarrow> string option \<times> bucket" where
  "r2_fault b = (case faults b of [] \<Rightarrow> (None, b) | f # fs \<Rightarrow> (f, b\<lparr>faults := fs\<rparr>))"

definition r2_get :: "bucket \<Rightarrow> string \<Rightarrow> (exn + string option) \<times> bucket" where
  "r2_get b k =
     (case r2_fault b of
        (Some m, b') \<Rightarrow> (Inl (StorageError m), b')
      | (None, b') \<Rightarrow> (Inr (map_of (objects b') k), b'))"

definition r2_head :: "bucket \<Rightarrow> string \<Rightarrow> (exn + bool) \<times> bucket" where
  "r2_head b k =
     (case r2_fault b of
        (Some m, b') \<Rightarrow> (Inl (StorageError m), b')
      | (None, b') \<Rightarrow> (Inr (map_of (objects b') k \<noteq> None), b'))"

definition r2_put :: "bucket \<Rightarrow> string \<Rightarrow> string \<Rightarrow> (exn + unit) \<times> bucket" where
  "r2_put b k v =
     (case r2_fault b of
        (Some m, b') \<Rightarrow> (Inl (StorageError m), b')
      | (None, b') \<Rightarrow> (Inr (), b'\<lparr>objects := AList.update k v (objects b')\<rparr>))"

definition r2_delete :: "bucket \<Rightarrow> string list \<Rightarrow> (exn + unit) \<times> bucket" where
  "r2_delete b ks =
     (case r2_fault b of
        (Some m, b') \<Rightarrow> (Inl (StorageError m), b')
      | (None, b') \<Rightarrow> (Inr (), b'\<lparr>objects := filter (\<lambda>kv. fst kv \<notin> set ks) (objects b')\<rparr>))"

text \<open>
  A listing returns the keys with the given prefix in lexicographic order, starting after
  the cursor (the last key of the page before), at most a page of them, and says whether
  more remain.
\<close>

record listing =
  list_keys :: "string list"
  truncated :: bool
  cursor :: "string option"

definition r2_keys :: "bucket \<Rightarrow> string list" where
  "r2_keys b = sort (remdups (map fst (objects b)))"

definition after_cursor :: "string option \<Rightarrow> string \<Rightarrow> bool" where
  "after_cursor c k = (case c of None \<Rightarrow> True | Some c' \<Rightarrow> c' < k)"

definition page_size :: "bucket \<Rightarrow> nat option \<Rightarrow> nat" where
  "page_size b limit = max 1 (case limit of None \<Rightarrow> list_limit b | Some n \<Rightarrow> min n (list_limit b))"

definition r2_list ::
  "bucket \<Rightarrow> string \<Rightarrow> string option \<Rightarrow> nat option \<Rightarrow> (exn + listing) \<times> bucket" where
  "r2_list b pre cur limit =
     (case r2_fault b of
        (Some m, b') \<Rightarrow> (Inl (StorageError m), b')
      | (None, b') \<Rightarrow>
          (let matching = filter (\<lambda>k. startsWith k pre \<and> after_cursor cur k) (r2_keys b');
               page = take (page_size b' limit) matching;
               more = (page_size b' limit < length matching)
           in (Inr \<lparr>list_keys = page, truncated = more,
                     cursor = (if more then Some (last page) else None)\<rparr>, b')))"

section \<open>Release uploads\<close>

text \<open>
  \<open>handleReleasePut\<close> of the current worker. The existence check is on the exact key
  (\<open>R2.head\<close>) and is skipped for file names that end in \<open>.sha1\<close>, \<open>.sha256\<close>,
  \<open>.sha512\<close>, \<open>.md5\<close> or contain \<open>maven-metadata\<close>. An exception of the bucket or of
  \<open>atob\<close> leaves the handler as \<open>Inl\<close>.
\<close>

definition validExtensions :: "string list" where
  "validExtensions =
     [''.jar'', ''.pom'', ''.module'', ''.xml'', ''.sha1'', ''.sha256'', ''.sha512'', ''.md5'',
      ''.asc'']"

definition handleReleasePut :: "request \<Rightarrow> env \<Rightarrow> bucket \<Rightarrow> (exn + response) \<times> bucket" where
  "handleReleasePut request env b =
     (case validateBasicAuth request env of
        Inl e \<Rightarrow> (Inl e, b)
      | Inr False \<Rightarrow> (Inr unauthorizedResponse, b)
      | Inr True \<Rightarrow>
          if \<not> startsWith (pathname request) ''/releases/''
          then (Inr (errorResponse ''Invalid release path'' 400), b)
          else
            (let mavenPath = drop (length ''/releases/'') (pathname request);
                 pathParts = split_on CHR ''/'' mavenPath
             in if length pathParts < 4
                then (Inr (errorResponse ''Invalid Maven path format'' 400), b)
                else
                  (let versionIndex = length pathParts - 2;
                       fileName = pathParts ! (length pathParts - 1);
                       version = pathParts ! versionIndex;
                       artifactId = pathParts ! (versionIndex - 1);
                       groupParts = take (versionIndex - 1) pathParts;
                       groupPath = join_with ''/'' groupParts;
                       hasValidExtension = list_ex (\<lambda>ext. endsWith fileName ext) validExtensions
                   in if \<not> hasValidExtension
                      then (Inr (errorResponse ''Invalid file type'' 400), b)
                      else
                        (let r2Key = groupPath @ ''/'' @ artifactId @ ''/'' @ version @ ''/'' @ fileName;
                             upload = (\<lambda>b'. case r2_put b' r2Key (body request) of
                                         (Inl e, b2) \<Rightarrow> (Inl e, b2)
                                       | (Inr u, b2) \<Rightarrow> (Inr okResponse, b2))
                         in if \<not> endsWith fileName ''.sha1'' \<and> \<not> endsWith fileName ''.sha256''
                               \<and> \<not> endsWith fileName ''.sha512'' \<and> \<not> endsWith fileName ''.md5''
                               \<and> \<not> includes_str fileName ''maven-metadata''
                            then
                              (case r2_head b r2Key of
                                 (Inl e, b1) \<Rightarrow> (Inl e, b1)
                               | (Inr True, b1) \<Rightarrow>
                                   (Inr \<lparr>status = 409,
                                         payload = Text (''File '' @ fileName @ '' already exists'')\<rparr>, b1)
                               | (Inr False, b1) \<Rightarrow> upload b1)
                            else upload b))))"

text \<open>
  \<open>handlePublishPut\<close> of \<open>worker/src/index.ts\<close>, the earlier worker: seven extensions, and
  the check is on the whole version prefix (\<open>checkVersionExists\<close>).
\<close>

definition checkVersionExists ::
  "string \<Rightarrow> string \<Rightarrow> string \<Rightarrow> bucket \<Rightarrow> (exn + bool) \<times> bucket" where
  "checkVersionExists groupPath artifactId version b =
     (let pre = groupPath @ ''/'' @ artifactId @ ''/'' @ version @ ''/''
      in case r2_list b pre None (Some 1) of
           (Inl e, b1) \<Rightarrow> (Inl e, b1)
         | (Inr listed, b1) \<Rightarrow> (Inr (length (list_keys listed) > 0), b1))"

definition validExtensions_publish :: "string list" where
  "validExtensions_publish =
     [''.jar'', ''.pom'', ''.module'', ''.xml'', ''.sha1'', ''.sha256'', ''.asc'']"

definition handlePublishPut :: "request \<Rightarrow> env \<Rightarrow> bucket \<Rightarrow> (exn + response) \<times> bucket" where
  "handlePublishPut request env b =
     (case validateBasicAuth request env of
        Inl e \<Rightarrow> (Inl e, b)
      | Inr False \<Rightarrow> (Inr unauthorizedResponse, b)
      | Inr True \<Rightarrow>
          if \<not> startsWith (pathname request) ''/publish/''
          then (Inr (errorResponse ''Invalid publish path'' 400), b)
          else
            (let mavenPath = drop (length ''/publish/'') (pathname request);
                 pathParts = split_on CHR ''/'' mavenPath
             in if length pathParts < 4
                then (Inr (errorResponse ''Invalid Maven path format'' 400), b)
                else
                  (let versionIndex = length pathParts - 2;
                       fileName = pathParts ! (length pathParts - 1);
                       version = pathParts ! versionIndex;
                       artifactId = pathParts ! (versionIndex - 1);
                       groupParts = take (versionIndex - 1) pathParts;
                       groupPath = join_with ''/'' groupParts;
                       hasValidExtension =
                         list_ex (\<lambda>ext. endsWith fileName ext) validExtensions_publish
                   in if \<not> hasValidExtension
                      then (Inr (errorResponse ''Invalid file type'' 400), b)
                      else
                        (let r2Key = groupPath @ ''/'' @ artifactId @ ''/'' @ version @ ''/'' @ fileName;
                             upload = (\<lambda>b'. case r2_put b' r2Key (body request) of
                                         (Inl e, b2) \<Rightarrow> (Inl e, b2)
                                       | (Inr u, b2) \<Rightarrow> (Inr okResponse, b2))
                         in if \<not> endsWith fileName ''.sha1'' \<and> \<not> endsWith fileName ''.sha256''
                               \<and> \<not> includes_str fileName ''maven-metadata''
                            then
                              (case checkVersionExists groupPath artifactId version b of
                                 (Inl e, b1) \<Rightarrow> (Inl e, b1)
                               | (Inr True, b1) \<Rightarrow>
                                   (Inr \<lparr>status = 409,
                                         payload = Text (''Version '' @ version @ '' already exists'')\<rparr>,
                                    b1)
                               | (Inr False, b1) \<Rightarrow> upload b1)
                            else upload b))))"

section \<open>Snapshot uploads, trusting the caller's file name\<close>

text \<open>
  \<open>handleSnapshotPut\<close> of the current worker: the three-part path ending in
  \<open>maven-metadata.xml\<close> is stored as it is; otherwise the version has to end in
  \<open>-SNAPSHOT\<close> unless the file name contains \<open>maven-metadata\<close>, and the body is stored
  under the file name the caller sent. There is no check of the extension.
\<close>

definition handleSnapshotPut :: "request \<Rightarrow> env \<Rightarrow> bucket \<Rightarrow> (exn + response) \<times> bucket" where
  "handleSnapshotPut request env b =
     (case validateBasicAuth request env of
        Inl e \<Rightarrow> (Inl e, b)
      | Inr False \<Rightarrow> (Inr unauthorizedResponse, b)
      | Inr True \<Rightarrow>
          if \<not> startsWith (pathname request) ''/snapshots/''
          then (Inr (errorResponse ''Invalid snapshot path'' 400), b)
          else
            (let mavenPath = drop (length ''/snapshots/'') (pathname request);
                 pathParts = split_on CHR ''/'' mavenPath
             in if length pathParts < 3
                then (Inr (errorResponse ''Invalid path format'' 400), b)
                else
                  (let fileName = pathParts ! (length pathParts - 1);
                       upload = (\<lambda>r2Key. case r2_put b r2Key (body request) of
                                   (Inl e, b2) \<Rightarrow> (Inl e, b2)
                                 | (Inr u, b2) \<Rightarrow> (Inr okResponse, b2))
                   in if length pathParts = 3 \<and> fileName = ''maven-metadata.xml''
                      then
                        (let artifactId = pathParts ! (length pathParts - 2);
                             groupParts = take (length pathParts - 2) pathParts;
                             groupPath = join_with ''/'' groupParts
                         in upload (groupPath @ ''/'' @ artifactId @ ''/'' @ fileName))
                      else if length pathParts < 4
                      then (Inr (errorResponse ''Invalid path format'' 400), b)
                      else
                        (let version = pathParts ! (length pathParts - 2);
                             artifactId = pathParts ! (length pathParts - 3);
                             groupParts = take (length pathParts - 3) pathParts;
                             groupPath = join_with ''/'' groupParts
                         in if \<not> endsWith version ''-SNAPSHOT''
                               \<and> \<not> includes_str fileName ''maven-metadata''
                            then (Inr (errorResponse ''Version must end with -SNAPSHOT'' 400), b)
                            else upload (groupPath @ ''/'' @ artifactId @ ''/'' @ version @ ''/''
                                         @ fileName)))))"

section \<open>Maven metadata as the worker reads and writes it\<close>

text \<open>
  What the XML parser hands to the worker, in the shape of the interface \<open>MavenMetadata\<close>.
  Every level is optional. A repeated element comes out of the parser as an array and a
  single one as the element itself, which the worker tells apart with \<open>Array.isArray\<close>. The
  texts that the worker compares or splits (the snapshot time stamp, the versions, \<open>latest\<close>
  and \<open>release\<close>) are \<open>jsval\<close>s: the interface declares them as strings, the parser returns
  a number for a text that reads as one. The build number is a run of digits and a number
  in the interface and from the parser alike. The fields of a \<open>snapshotVersion\<close> entry are
  only compared with the extension of the upload and copied into the new document; they
  are kept as their texts, which is what the builder writes for them. The parser and the builder belong to the XML
  library and are parameters of the functions that use them: \<open>parse\<close> gives \<open>None\<close> where
  \<open>parser.parse\<close> throws.
\<close>

datatype 'a one_or_many = One 'a | Many "'a list"

record SnapshotVersion =
  sv_extension :: "string option"
  sv_classifier :: "string option"
  sv_value :: "string option"
  sv_updated :: "string option"

record Snapshot =
  snapshot_timestamp :: "jsval option"
  snapshot_buildNumber :: "int option"

record SnapshotVersions =
  snapshotVersion :: "SnapshotVersion one_or_many option"

record Versions =
  versions_version :: "jsval one_or_many option"

record Versioning =
  v_latest :: "jsval option"
  v_release :: "jsval option"
  v_snapshot :: "Snapshot option"
  v_lastUpdated :: "string option"
  v_snapshotVersions :: "SnapshotVersions option"
  v_versions :: "Versions option"

record Metadata =
  md_groupId :: "string option"
  md_artifactId :: "string option"
  md_version :: "string option"
  md_versioning :: "Versioning option"

record MavenMetadata =
  metadata :: "Metadata option"

record SnapshotMetadata =
  timestamp :: string
  buildNumber :: int

text \<open>The object literal that \<open>updateSnapshotMetadata\<close> hands to the XML builder.\<close>

record SnapshotDocument =
  doc_groupId :: string
  doc_artifactId :: string
  doc_version :: string
  doc_snapshot :: SnapshotMetadata
  doc_lastUpdated :: string
  doc_snapshotVersions :: "SnapshotVersion list"
  doc_versions :: "string option list"
  doc_latest :: string
  doc_release :: string

section \<open>Snapshot uploads with file names computed by the server\<close>

text \<open>
  A \<open>Date\<close> is read through its UTC getters only; \<open>utcMonth\<close> counts from 0 as
  \<open>getUTCMonth\<close> does.
\<close>

record Date =
  utcFullYear :: nat
  utcMonth :: nat
  utcDate :: nat
  utcHours :: nat
  utcMinutes :: nat
  utcSeconds :: nat

definition formatTimestamp :: "Date \<Rightarrow> string" where
  "formatTimestamp date =
     (let year = string_of_nat (utcFullYear date);
          month = padStart 2 CHR ''0'' (string_of_nat (utcMonth date + 1));
          day = padStart 2 CHR ''0'' (string_of_nat (utcDate date));
          hours = padStart 2 CHR ''0'' (string_of_nat (utcHours date));
          minutes = padStart 2 CHR ''0'' (string_of_nat (utcMinutes date));
          seconds = padStart 2 CHR ''0'' (string_of_nat (utcSeconds date))
      in year @ month @ day @ ''.'' @ hours @ minutes @ seconds)"

definition parseFileName :: "string \<Rightarrow> string \<times> string" where
  "parseFileName fileName =
     (case lastIndexOf CHR ''.'' fileName of
        None \<Rightarrow> (fileName, [])
      | Some lastDotIndex \<Rightarrow> (take lastDotIndex fileName, drop (lastDotIndex + 1) fileName))"

text \<open>
  \<open>getOrGenerateSnapshotMetadata\<close>. \<open>now\<close> is the value of \<open>new Date()\<close>. The test
  \<open>existingTimestamp === newTimestamp\<close> has the string \<open>newTimestamp\<close> on its right: it is
  true only for a string with the same characters, and false for an absent time stamp, a
  number or a boolean. Where it is true \<open>existingTimestamp\<close> is the string \<open>newTimestamp\<close>,
  which the result carries. \<open>existingBuildNumber || 0\<close> is 0 for an absent build number.
\<close>

definition getOrGenerateSnapshotMetadata ::
  "(string \<Rightarrow> MavenMetadata option) \<Rightarrow> Date \<Rightarrow> bucket \<Rightarrow> string \<Rightarrow> string \<Rightarrow> string
     \<Rightarrow> (exn + SnapshotMetadata) \<times> bucket" where
  "getOrGenerateSnapshotMetadata parse now b groupPath artifactId version =
     (let metadataKey = groupPath @ ''/'' @ artifactId @ ''/'' @ version @ ''/maven-metadata.xml''
      in case r2_get b metadataKey of
           (Inl e, b1) \<Rightarrow> (Inl e, b1)
         | (Inr (Some metadataText), b1) \<Rightarrow>
             (case parse metadataText of
                None \<Rightarrow> (Inl XmlParseError, b1)
              | Some parsed \<Rightarrow>
                  (let snap = Option.bind (Option.bind (metadata parsed) md_versioning) v_snapshot;
                       existingTimestamp = Option.bind snap snapshot_timestamp;
                       existingBuildNumber = Option.bind snap snapshot_buildNumber;
                       newTimestamp = formatTimestamp now
                   in if strict_eq (JString newTimestamp) existingTimestamp
                      then (Inr \<lparr>timestamp = newTimestamp,
                                 buildNumber =
                                   (case existingBuildNumber of None \<Rightarrow> 0 | Some n \<Rightarrow> n) + 1\<rparr>, b1)
                      else (Inr \<lparr>timestamp = newTimestamp, buildNumber = 1\<rparr>, b1)))
         | (Inr None, b1) \<Rightarrow> (Inr \<lparr>timestamp = formatTimestamp now, buildNumber = 1\<rparr>, b1))"

fun findIndex :: "('a \<Rightarrow> bool) \<Rightarrow> 'a list \<Rightarrow> nat option" where
  "findIndex P [] = None"
| "findIndex P (x # xs) = (if P x then Some 0 else map_option Suc (findIndex P xs))"

text \<open>
  The steps of \<open>updateSnapshotMetadata\<close>: the entry for the uploaded file replaces the
  first entry that \<open>findIndex\<close> matches or is pushed at the end, and the document is built
  around the resulting list. \<open>lastUpdated\<close> is the time stamp with its first dot removed.
\<close>

definition upsertSnapshotVersion ::
  "SnapshotVersion list \<Rightarrow> string \<Rightarrow> string \<Rightarrow> string \<Rightarrow> SnapshotVersion list" where
  "upsertSnapshotVersion snapshotVersions extension timestampedValue lastUpdated =
     (let entry = \<lparr>sv_extension = Some extension, sv_classifier = None,
                    sv_value = Some timestampedValue, sv_updated = Some lastUpdated\<rparr>;
          existingVersionIndex =
            findIndex (\<lambda>sv. sv_extension sv = Some extension
                            \<and> sv_classifier sv = (if extension = ''jar'' then None else Some extension))
              snapshotVersions
      in case existingVersionIndex of
           Some i \<Rightarrow> snapshotVersions[i := entry]
         | None \<Rightarrow> snapshotVersions @ [entry])"

definition snapshotDocument ::
  "string \<Rightarrow> string \<Rightarrow> string \<Rightarrow> SnapshotMetadata \<Rightarrow> string \<Rightarrow> SnapshotVersion list
     \<Rightarrow> SnapshotDocument" where
  "snapshotDocument groupPath artifactId version snapshotMetadata lastUpdated snapshotVersions =
     \<lparr>doc_groupId = replace_all CHR ''/'' CHR ''.'' groupPath,
      doc_artifactId = artifactId,
      doc_version = version,
      doc_snapshot = \<lparr>timestamp = timestamp snapshotMetadata,
                       buildNumber = buildNumber snapshotMetadata\<rparr>,
      doc_lastUpdated = lastUpdated,
      doc_snapshotVersions = snapshotVersions,
      doc_versions = map sv_value snapshotVersions,
      doc_latest = version,
      doc_release = version\<rparr>"

definition updateSnapshotMetadata ::
  "(string \<Rightarrow> MavenMetadata option) \<Rightarrow> (SnapshotDocument \<Rightarrow> string) \<Rightarrow> Date \<Rightarrow> bucket
     \<Rightarrow> string \<Rightarrow> string \<Rightarrow> string \<Rightarrow> string \<Rightarrow> SnapshotMetadata \<Rightarrow> string
     \<Rightarrow> (exn + unit) \<times> bucket" where
  "updateSnapshotMetadata parse build now b groupPath artifactId version baseVersion
     snapshotMetadata extension =
     (let metadataKey = groupPath @ ''/'' @ artifactId @ ''/'' @ version @ ''/maven-metadata.xml''
      in case r2_get b metadataKey of
           (Inl e, b1) \<Rightarrow> (Inl e, b1)
         | (Inr existing, b1) \<Rightarrow>
             (case (case existing of
                      None \<Rightarrow> Some []
                    | Some metadataText \<Rightarrow>
                        (case parse metadataText of
                           None \<Rightarrow> None
                         | Some parsed \<Rightarrow>
                             (let rawVersions =
                                    Option.bind
                                      (Option.bind (Option.bind (metadata parsed) md_versioning)
                                         v_snapshotVersions)
                                      snapshotVersion
                              in Some (case rawVersions of
                                         Some (Many xs) \<Rightarrow> xs
                                       | Some (One x) \<Rightarrow> [x]
                                       | None \<Rightarrow> [])))) of
                None \<Rightarrow> (Inl XmlParseError, b1)
              | Some snapshotVersions0 \<Rightarrow>
                  (let timestampedValue =
                         baseVersion @ ''-'' @ timestamp snapshotMetadata @ ''-''
                         @ string_of_int (buildNumber snapshotMetadata);
                       lastUpdated = remove1 CHR ''.'' (formatTimestamp now);
                       snapshotVersions1 =
                         upsertSnapshotVersion snapshotVersions0 extension timestampedValue
                           lastUpdated;
                       xml = build (snapshotDocument groupPath artifactId version
                                      snapshotMetadata lastUpdated snapshotVersions1)
                   in r2_put b1 metadataKey xml)))"

text \<open>
  \<open>handleSnapshotPut\<close> of the worker that computes the file name itself
  (\<open>part_004\<close>, first document). It reads the clock twice: \<open>now1\<close> in
  \<open>getOrGenerateSnapshotMetadata\<close>, \<open>now2\<close> in \<open>updateSnapshotMetadata\<close>.
\<close>

definition validExtensions_snapshot :: "string list" where
  "validExtensions_snapshot =
     [''.jar'', ''.pom'', ''.module'', ''.xml'', ''.sha1'', ''.sha256'', ''.asc'']"

definition handleSnapshotPut_v1 ::
  "(string \<Rightarrow> MavenMetadata option) \<Rightarrow> (SnapshotDocument \<Rightarrow> string) \<Rightarrow> Date \<Rightarrow> Date
     \<Rightarrow> request \<Rightarrow> env \<Rightarrow> bucket \<Rightarrow> (exn + response) \<times> bucket" where
  "handleSnapshotPut_v1 parse build now1 now2 request env b =
     (case validateBasicAuth request env of
        Inl e \<Rightarrow> (Inl e, b)
      | Inr False \<Rightarrow> (Inr unauthorizedResponse, b)
      | Inr True \<Rightarrow>
          if \<not> startsWith (pathname request) ''/snapshots/''
          then (Inr (errorResponse ''Invalid snapshot path'' 400), b)
          else
            (let mavenPath = drop (length ''/snapshots/'') (pathname request);
                 pathParts = split_on CHR ''/'' mavenPath
             in if length pathParts < 4
                then (Inr (errorResponse ''Invalid path format'' 400), b)
                else
                  (let fileName = pathParts ! (length pathParts - 1);
                       version = pathParts ! (length pathParts - 2);
                       artifactId = pathParts ! (length pathParts - 3);
                       groupParts = take (length pathParts - 3) pathParts;
                       groupPath = join_with ''/'' groupParts
                   in if \<not> endsWith version ''-SNAPSHOT''
                      then (Inr (errorResponse ''Version must end with -SNAPSHOT'' 400), b)
                      else if \<not> list_ex (\<lambda>ext. endsWith fileName ext) validExtensions_snapshot
                      then (Inr (errorResponse ''Invalid file type'' 400), b)
                      else
                        (let baseVersion = take (length version - length ''-SNAPSHOT'') version
                         in case getOrGenerateSnapshotMetadata parse now1 b groupPath artifactId
                                   version of
                              (Inl e, b1) \<Rightarrow> (Inl e, b1)
                            | (Inr snapshotMetadata, b1) \<Rightarrow>
                                (let (baseFileName, extension) = parseFileName fileName;
                                     timestampedFileName =
                                       baseFileName @ ''-'' @ baseVersion @ ''-''
                                       @ timestamp snapshotMetadata @ ''-''
                                       @ string_of_int (buildNumber snapshotMetadata)
                                       @ ''.'' @ extension;
                                     r2Key = groupPath @ ''/'' @ artifactId @ ''/'' @ version @ ''/''
                                             @ timestampedFileName
                                 in case r2_put b1 r2Key (body request) of
                                      (Inl e, b2) \<Rightarrow> (Inl e, b2)
                                    | (Inr u, b2) \<Rightarrow>
                                        (case updateSnapshotMetadata parse build now2 b2 groupPath
                                                artifactId version baseVersion snapshotMetadata
                                                extension of
                                           (Inl e, b3) \<Rightarrow> (Inl e, b3)
                                         | (Inr u', b3) \<Rightarrow>
                                             (Inr \<lparr>status = 200,
                                                   payload =
                                                     JsonSnapshot timestampedFileName
                                                       (timestamp snapshotMetadata)
                                                       (buildNumber snapshotMetadata)\<rparr>,
                                              b3)))))))"

section \<open>Numbers and sorting\<close>

text \<open>
  \<open>Number_js\<close> is \<open>Number(s)\<close> on a string, following the grammar of
  \<open>StringNumericLiteral\<close> on ASCII text: surrounding white space is trimmed, the empty
  string is 0, then come the radix literals \<open>0x\<close>, \<open>0o\<close>, \<open>0b\<close>, and the signed decimal
  literals with optional fraction and exponent, and \<open>Infinity\<close>. Anything else is \<open>NaN\<close>.
\<close>

definition is_ws :: "char \<Rightarrow> bool" where
  "is_ws c = (c \<in> set [CHR 0x09, CHR 0x0A, CHR 0x0B, CHR 0x0C, CHR 0x0D, CHR '' ''])"

definition trim :: "string \<Rightarrow> string" where
  "trim s = rev (dropWhile is_ws (rev (dropWhile is_ws s)))"

definition is_digit :: "char \<Rightarrow> bool" where
  "is_digit c = (c \<in> set ''0123456789'')"

definition digit_value :: "char \<Rightarrow> nat" where
  "digit_value c =
     (if c \<in> set ''0123456789'' then index_of c ''0123456789''
      else if c \<in> set ''abcdef'' then 10 + index_of c ''abcdef''
      else 10 + index_of c ''ABCDEF'')"

definition radix_value :: "nat \<Rightarrow> string \<Rightarrow> nat" where
  "radix_value base ds = foldl (\<lambda>acc c. acc * base + digit_value c) 0 ds"

definition radix_digits :: "nat \<Rightarrow> string" where
  "radix_digits base =
     (if base = 16 then ''0123456789abcdefABCDEF''
      else if base = 8 then ''01234567'' else ''01'')"

definition radix_literal :: "string \<Rightarrow> (nat \<times> string) option" where
  "radix_literal t =
     (case t of
        c0 # c1 # ds \<Rightarrow>
          if c0 = CHR ''0'' \<and> c1 \<in> set ''xX'' then Some (16, ds)
          else if c0 = CHR ''0'' \<and> c1 \<in> set ''oO'' then Some (8, ds)
          else if c0 = CHR ''0'' \<and> c1 \<in> set ''bB'' then Some (2, ds)
          else None
      | _ \<Rightarrow> None)"

definition digits_only :: "string \<Rightarrow> int option" where
  "digits_only ds =
     (if ds \<noteq> [] \<and> list_all is_digit ds then Some (int (radix_value 10 ds)) else None)"

definition exponent_part :: "string \<Rightarrow> int option" where
  "exponent_part r =
     (case r of
        [] \<Rightarrow> Some 0
      | c # sd \<Rightarrow>
          if c \<in> set ''eE'' then
            (case sd of
               [] \<Rightarrow> None
             | s # ds \<Rightarrow>
                 if s = CHR ''+'' then digits_only ds
                 else if s = CHR ''-'' then map_option uminus (digits_only ds)
                 else digits_only sd)
          else None)"

definition unsigned_decimal :: "string \<Rightarrow> rat option" where
  "unsigned_decimal u =
     (let ip = takeWhile is_digit u;
          r1 = dropWhile is_digit u;
          dotted = (r1 \<noteq> [] \<and> hd r1 = CHR ''.'');
          fp = (if dotted then takeWhile is_digit (tl r1) else []);
          r2 = (if dotted then dropWhile is_digit (tl r1) else r1)
      in if ip = [] \<and> fp = [] then None
         else
           (case exponent_part r2 of
              None \<Rightarrow> None
            | Some e \<Rightarrow>
                (let m = of_nat (radix_value 10 ip) + of_nat (radix_value 10 fp) / 10 ^ length fp
                 in Some (if 0 \<le> e then m * 10 ^ nat e else m / 10 ^ nat (- e)))))"

definition Number_js :: "string \<Rightarrow> jsnum" where
  "Number_js s =
     (let t = trim s
      in if t = [] then Fin 0
         else
           (case radix_literal t of
              Some (base, ds) \<Rightarrow>
                if ds \<noteq> [] \<and> list_all (\<lambda>c. c \<in> set (radix_digits base)) ds
                then Fin (of_nat (radix_value base ds)) else NaN
            | None \<Rightarrow>
                (let neg = (hd t = CHR ''-'');
                     u = (if hd t = CHR ''-'' \<or> hd t = CHR ''+'' then tl t else t)
                 in if u = ''Infinity'' then (if neg then NegInf else PosInf)
                    else
                      (case unsigned_decimal u of
                         None \<Rightarrow> NaN
                       | Some q \<Rightarrow> Fin (if neg then - q else q)))))"

text \<open>
  \<open>x || 0\<close> and \<open>x ?? 0\<close> on an array read, \<open>a !== b\<close> and \<open>a - b\<close> on numbers, and the
  sign tests that \<open>sort\<close> makes on the value of its comparator.
\<close>

definition or_zero :: "jsnum option \<Rightarrow> jsnum" where
  "or_zero x = (case x of None \<Rightarrow> Fin 0 | Some NaN \<Rightarrow> Fin 0 | Some v \<Rightarrow> v)"

definition nullish_zero :: "jsnum option \<Rightarrow> jsnum" where
  "nullish_zero x = (case x of None \<Rightarrow> Fin 0 | Some v \<Rightarrow> v)"

definition js_neq :: "jsnum \<Rightarrow> jsnum \<Rightarrow> bool" where
  "js_neq a b = (a = NaN \<or> b = NaN \<or> a \<noteq> b)"

fun js_minus :: "jsnum \<Rightarrow> jsnum \<Rightarrow> jsnum" where
  "js_minus NaN b = NaN"
| "js_minus a NaN = NaN"
| "js_minus (Fin x) (Fin y) = Fin (x - y)"
| "js_minus (Fin x) PosInf = NegInf"
| "js_minus (Fin x) NegInf = PosInf"
| "js_minus PosInf PosInf = NaN"
| "js_minus PosInf b = PosInf"
| "js_minus NegInf NegInf = NaN"
| "js_minus NegInf b = NegInf"

definition js_positive :: "jsnum \<Rightarrow> bool" where
  "js_positive v = (case v of PosInf \<Rightarrow> True | Fin q \<Rightarrow> 0 < q | _ \<Rightarrow> False)"

definition js_negative :: "jsnum \<Rightarrow> bool" where
  "js_negative v = (case v of NegInf \<Rightarrow> True | Fin q \<Rightarrow> q < 0 | _ \<Rightarrow> False)"

text \<open>
  \<open>Array.prototype.sort\<close> with a comparator that may throw. The sort is stable, so for a
  comparator that orders its arguments consistently the result is the one stable sorted
  arrangement, which \<open>array_sort\<close> computes by insertion: an element moves behind those after
  it only past the ones it compares greater than. An exception of the comparator leaves
  the sort. With two or more elements every element goes through the comparator at least
  once, here as in any engine; with fewer the comparator is not called.
\<close>

fun insert_sorted :: "('a \<Rightarrow> 'a \<Rightarrow> exn + jsnum) \<Rightarrow> 'a \<Rightarrow> 'a list \<Rightarrow> exn + 'a list" where
  "insert_sorted cmp x [] = Inr [x]"
| "insert_sorted cmp x (y # ys) =
     (case cmp x y of
        Inl e \<Rightarrow> Inl e
      | Inr c \<Rightarrow>
          if js_positive c
          then (case insert_sorted cmp x ys of Inl e \<Rightarrow> Inl e | Inr zs \<Rightarrow> Inr (y # zs))
          else Inr (x # y # ys))"

fun array_sort :: "('a \<Rightarrow> 'a \<Rightarrow> exn + jsnum) \<Rightarrow> 'a list \<Rightarrow> exn + 'a list" where
  "array_sort cmp [] = Inr []"
| "array_sort cmp (x # xs) =
     (case array_sort cmp xs of Inl e \<Rightarrow> Inl e | Inr ys \<Rightarrow> insert_sorted cmp x ys)"

section \<open>The versions query\<close>

text \<open>
  The comparator that \<open>handleGetVersions\<close> passes to \<open>sort\<close>: the versions are split at
  the dots, each part goes through \<open>Number\<close>, and the \<open>for\<close> loop compares the parts index
  by index, with \<open>partsA[i] || 0\<close>. Only a string has \<open>split\<close>: on a number or a boolean
  \<open>a.split\<close> is undefined and calling it throws a \<open>TypeError\<close>.
\<close>

function versionsCompareLoop :: "jsnum list \<Rightarrow> jsnum list \<Rightarrow> nat \<Rightarrow> jsnum" where
  "versionsCompareLoop partsA partsB i =
     (if i < max (length partsA) (length partsB) then
        (let numA = or_zero (nth_opt partsA i);
             numB = or_zero (nth_opt partsB i)
         in if js_neq numA numB then js_minus numB numA
            else versionsCompareLoop partsA partsB (i + 1))
      else Fin 0)"
  by pat_completeness auto
termination
  by (relation "measure (\<lambda>(partsA, partsB, i). max (length partsA) (length partsB) - i)") auto

definition versionsComparator :: "jsval \<Rightarrow> jsval \<Rightarrow> exn + jsnum" where
  "versionsComparator a b =
     (case (a, b) of
        (JString sa, JString sb) \<Rightarrow>
          (let partsA = map Number_js (split_on CHR ''.'' sa);
               partsB = map Number_js (split_on CHR ''.'' sb)
           in Inr (versionsCompareLoop partsA partsB 0))
      | _ \<Rightarrow> Inl TypeError)"

text \<open>\<open>a || b\<close> on values that may be undefined.\<close>

definition or_else :: "jsval option \<Rightarrow> jsval option \<Rightarrow> jsval option" where
  "or_else a b = (case a of Some v \<Rightarrow> if falsy v then b else a | None \<Rightarrow> b)"

text \<open>
  \<open>handleGetVersions\<close>. \<open>parseMavenMetadata\<close> turns an exception of the parser into \<open>null\<close>,
  which the optional chain of the test treats like any missing link. An exception of the
  handler reaches \<open>fetch\<close>, which answers it with \<open>Internal server error\<close> and 500.
\<close>

definition handleGetVersions ::
  "(string \<Rightarrow> MavenMetadata option) \<Rightarrow> request \<Rightarrow> bucket \<Rightarrow> (exn + response) \<times> bucket" where
  "handleGetVersions parse request b =
     (let groupParam = map_of (searchParams request) ''group'';
          artifact = map_of (searchParams request) ''artifact''
      in if groupParam = None \<or> groupParam = Some [] \<or> artifact = None \<or> artifact = Some []
         then (Inr (errorResponse ''Missing required parameters: group, artifact'' 400), b)
         else
           (let groupPath = replace_all CHR ''.'' CHR ''/'' (the groupParam);
                metadataPath = groupPath @ ''/'' @ the artifact @ ''/maven-metadata.xml''
            in case r2_get b metadataPath of
                 (Inl e, b1) \<Rightarrow> (Inl e, b1)
               | (Inr None, b1) \<Rightarrow> (Inr (errorResponse ''Artifact not found'' 404), b1)
               | (Inr (Some xml), b1) \<Rightarrow>
                   (let vg = Option.bind (Option.bind (parse xml) metadata) md_versioning;
                        vs = Option.bind (Option.bind vg v_versions) versions_version
                    in if (case vs of None \<Rightarrow> True | Some (One v) \<Rightarrow> falsy v
                                    | Some (Many xs) \<Rightarrow> False)
                       then (Inr (errorResponse ''Invalid maven-metadata.xml'' 500), b1)
                       else
                         (let versionsArray = (case the vs of Many xs \<Rightarrow> xs | One x \<Rightarrow> [x]);
                              latest = or_else (Option.bind vg v_latest) (Option.bind vg v_release);
                              release = Option.bind vg v_release
                          in case array_sort versionsComparator versionsArray of
                               Inl e \<Rightarrow> (Inl e, b1)
                             | Inr sortedArray \<Rightarrow>
                                 (Inr (jsonResponse (JsonVersions
                                    (map (\<lambda>version. (version, strict_eq version latest,
                                                    strict_eq version release)) sortedArray))),
                                  b1)))))"

section \<open>The version list of the frontend\<close>

text \<open>
  \<open>compareVersions\<close> of the artifact page (\<open>part_002\<close>): the text from the first \<open>+\<close> on
  is cut off before the split, and the parts are read with \<open>?? 0\<close>. Its value is positive
  when \<open>a\<close> is the newer version.
\<close>

function compareVersionsLoop :: "jsnum list \<Rightarrow> jsnum list \<Rightarrow> nat \<Rightarrow> jsnum" where
  "compareVersionsLoop partsA partsB i =
     (if i < max (length partsA) (length partsB) then
        (let numA = nullish_zero (nth_opt partsA i);
             numB = nullish_zero (nth_opt partsB i)
         in if js_neq numA numB then js_minus numA numB
            else compareVersionsLoop partsA partsB (i + 1))
      else Fin 0)"
  by pat_completeness auto
termination
  by (relation "measure (\<lambda>(partsA, partsB, i). max (length partsA) (length partsB) - i)") auto

definition compareVersions :: "string \<Rightarrow> string \<Rightarrow> jsnum" where
  "compareVersions a b =
     (let versionA = (case split_on CHR ''+'' a of [] \<Rightarrow> [] | x # xs \<Rightarrow> x);
          versionB = (case split_on CHR ''+'' b of [] \<Rightarrow> [] | x # xs \<Rightarrow> x);
          partsA = map Number_js (split_on CHR ''.'' versionA);
          partsB = map Number_js (split_on CHR ''.'' versionB)
      in compareVersionsLoop partsA partsB 0)"

section \<open>Purge\<close>

text \<open>
  The \<open>while (truncated)\<close> loop of \<open>handlePurge\<close> for one root. It returns the exception
  that ended it, if any, the keys pushed to \<open>deletedKeys\<close> so far, and the bucket. The loop
  goes on only after a page that was truncated, hence not empty, has been deleted, so the
  number of keys under the prefix goes down with every round.
\<close>

function purgeLoop ::
  "bucket \<Rightarrow> string \<Rightarrow> string option \<Rightarrow> string list \<Rightarrow> exn option \<times> string list \<times> bucket" where
  "purgeLoop b fullPrefix cur deletedKeys =
     (case r2_list b fullPrefix cur None of
        (Inl e, b1) \<Rightarrow> (Some e, deletedKeys, b1)
      | (Inr lst, b1) \<Rightarrow>
          (if length (list_keys lst) > 0 then
             (case r2_delete b1 (list_keys lst) of
                (Inl e, b2) \<Rightarrow> (Some e, deletedKeys, b2)
              | (Inr u, b2) \<Rightarrow>
                  (if truncated lst
                   then purgeLoop b2 fullPrefix (cursor lst) (deletedKeys @ list_keys lst)
                   else (None, deletedKeys @ list_keys lst, b2)))
           else
             (if truncated lst
              then purgeLoop b1 fullPrefix (cursor lst) deletedKeys
              else (None, deletedKeys, b1))))"
  by pat_completeness auto

termination
proof (relation "measure (\<lambda>(b, fullPrefix, cur, deletedKeys).
                   length (filter (\<lambda>k. startsWith k fullPrefix) (r2_keys b)))", goal_cases)
  case 1
  show ?case by simp
next
  case (2 b fullPrefix cur deletedKeys x b1 lst xa b2 u)
  have l: "r2_list b fullPrefix cur None = (Inr lst, b1)" using 2 by simp
  have d: "r2_delete b1 (list_keys lst) = (Inr u, b2)" using 2 by simp
  have ob: "objects b1 = objects b"
    using l by (auto simp: r2_list_def r2_fault_def Let_def split: list.splits option.splits)
  have "\<exists>n. list_keys lst
          = take n (filter (\<lambda>k. startsWith k fullPrefix \<and> after_cursor cur k) (r2_keys b))"
    using l
    by (auto simp: r2_list_def r2_fault_def r2_keys_def Let_def split: list.splits option.splits)
  then obtain n where "list_keys lst
      = take n (filter (\<lambda>k. startsWith k fullPrefix \<and> after_cursor cur k) (r2_keys b))" ..
  then have sub: "set (list_keys lst) \<subseteq> {k \<in> set (r2_keys b). startsWith k fullPrefix}"
    using set_take_subset [of n "filter (\<lambda>k. startsWith k fullPrefix \<and> after_cursor cur k)
                                     (r2_keys b)"]
    by auto
  have od: "objects b2 = filter (\<lambda>kv. fst kv \<notin> set (list_keys lst)) (objects b)"
    using d ob by (auto simp: r2_delete_def r2_fault_def split: list.splits option.splits)
  have m: "map fst (filter (\<lambda>kv. fst kv \<notin> S) xs) = filter (\<lambda>k. k \<notin> S) (map fst xs)"
    for xs :: "(string \<times> string) list" and S
    by (induction xs) auto
  have "r2_keys b2 = sort (remdups (filter (\<lambda>k. k \<notin> set (list_keys lst)) (map fst (objects b))))"
    by (simp only: r2_keys_def od m)
  also have "\<dots> = filter (\<lambda>k. k \<notin> set (list_keys lst)) (r2_keys b)"
    by (simp only: remdups_filter filter_sort [symmetric] r2_keys_def)
  finally have kb: "r2_keys b2 = filter (\<lambda>k. k \<notin> set (list_keys lst)) (r2_keys b)" .
  let ?L = "filter (\<lambda>k. startsWith k fullPrefix) (r2_keys b)"
  have e: "filter (\<lambda>k. startsWith k fullPrefix) (r2_keys b2)
           = filter (\<lambda>k. k \<notin> set (list_keys lst)) ?L"
    by (simp add: kb conj_commute)
  from 2 obtain k where k: "k \<in> set (list_keys lst)"
    by (cases "list_keys lst") auto
  with sub have "k \<in> set ?L" by auto
  then have "length (filter (\<lambda>k. k \<notin> set (list_keys lst)) ?L) < length ?L"
    by (rule length_filter_less) (simp add: k)
  then show ?case by (simp add: e)
next
  case (3 b fullPrefix cur deletedKeys x b1 lst)
  have l: "r2_list b fullPrefix cur None = (Inr lst, b1)" using 3 by simp
  have "truncated lst \<longrightarrow> list_keys lst \<noteq> []"
    using l
    by (auto simp: r2_list_def r2_fault_def page_size_def Let_def
        split: list.splits option.splits)
  with 3 have False by auto
  then show ?case ..
qed

text \<open>
  \<open>handlePurge\<close>: the \<open>for\<close> loop over the two roots, each iteration in its own
  \<open>try\<close>, whose \<open>catch\<close> pushes the message to \<open>errors\<close> and goes on to the next root.
\<close>

definition exn_message :: "exn \<Rightarrow> string" where
  "exn_message e =
     (case e of
        StorageError m \<Rightarrow> m
      | InvalidCharacterError \<Rightarrow> ''Invalid character''
      | XmlParseError \<Rightarrow> ''Invalid XML''
      | TypeError \<Rightarrow> ''Type error'')"

fun purgeRoots ::
  "string list \<Rightarrow> string \<Rightarrow> bucket \<Rightarrow> string list \<Rightarrow> string list
     \<Rightarrow> string list \<times> string list \<times> bucket" where
  "purgeRoots [] pathPrefix b deletedKeys errors = (deletedKeys, errors, b)"
| "purgeRoots (rootName # roots) pathPrefix b deletedKeys errors =
     (let fullPrefix = rootName @ ''/'' @ pathPrefix @ ''/''
      in case purgeLoop b fullPrefix None deletedKeys of
           (None, deletedKeys', b') \<Rightarrow> purgeRoots roots pathPrefix b' deletedKeys' errors
         | (Some e, deletedKeys', b') \<Rightarrow>
             purgeRoots roots pathPrefix b' deletedKeys'
               (errors @ [''Failed to purge '' @ fullPrefix @ '': '' @ exn_message e]))"

definition handlePurge :: "request \<Rightarrow> env \<Rightarrow> bucket \<Rightarrow> (exn + response) \<times> bucket" where
  "handlePurge request env b =
     (case validateBasicAuth request env of
        Inl e \<Rightarrow> (Inl e, b)
      | Inr False \<Rightarrow> (Inr unauthorizedResponse, b)
      | Inr True \<Rightarrow>
          (case map_of (searchParams request) ''prefix'' of
             None \<Rightarrow> (Inr (errorResponse ''Missing prefix parameter'' 400), b)
           | Some pre \<Rightarrow>
               if pre = [] then (Inr (errorResponse ''Missing prefix parameter'' 400), b)
               else
                 (let pathPrefix = replace_all CHR ''.'' CHR ''/'' pre
                  in if length pathPrefix < 3
                     then (Inr (errorResponse ''Prefix too short'' 400), b)
                     else
                       (case purgeRoots [''releases'', ''snapshots''] pathPrefix b [] [] of
                          (deletedKeys, errors, b') \<Rightarrow>
                            (Inr (jsonResponse
                                    (JsonPurge (length errors = 0) deletedKeys
                                       (if length errors > 0 then Some errors else None))),
                             b')))))"

section \<open>The time stamp format in the words of the specification\<close>

text \<open>
  \<open>yyyyMMdd.HHmmss\<close>: the year in four digits and month, day, hours, minutes and seconds
  in two digits each, zero padded, with a dot after the day. \<open>formatTimestamp\<close> is compared
  with it below.
\<close>

fun fixed_width :: "nat \<Rightarrow> nat \<Rightarrow> string" where
  "fixed_width 0 n = []"
| "fixed_width (Suc k) n = fixed_width k (n div 10) @ [digit_char (n mod 10)]"

definition spec_timestamp_format :: "Date \<Rightarrow> string" where
  "spec_timestamp_format date =
     fixed_width 4 (utcFullYear date) @ fixed_width 2 (utcMonth date + 1)
     @ fixed_width 2 (utcDate date) @ ''.'' @ fixed_width 2 (utcHours date)
     @ fixed_width 2 (utcMinutes date) @ fixed_width 2 (utcSeconds date)"

declare string_of_nat.simps [simp del]

declare purgeLoop.simps [simp del]

section \<open>Lemmas on strings and authentication\<close>

lemma split_on_nonempty: "split_on d s \<noteq> []"
  by (induction s) (auto split: list.splits)

lemma split_on_no_sep: "p \<in> set (split_on d s) \<Longrightarrow> d \<notin> set p"
proof (induction s arbitrary: p)
  case Nil
  then show ?case by simp
next
  case (Cons c cs)
  show ?case
  proof (cases "c = d")
    case True
    with Cons show ?thesis by auto
  next
    case False
    obtain w ws where ws: "split_on d cs = w # ws"
      using split_on_nonempty [of d cs] by (cases "split_on d cs") auto
    with False Cons.prems have "p = c # w \<or> p \<in> set ws" by auto
    then show ?thesis
    proof
      assume "p = c # w"
      moreover have "d \<notin> set w" using Cons.IH [of w] ws by simp
      ultimately show ?thesis using False by auto
    next
      assume "p \<in> set ws"
      then show ?thesis using Cons.IH [of p] ws by simp
    qed
  qed
qed

lemma nth_opt_mem: "nth_opt xs i = Some x \<Longrightarrow> x \<in> set xs"
  by (auto simp: nth_opt_def split: if_splits)

lemma validateBasicAuth_True_no_colon:
  assumes "validateBasicAuth request env = Inr True"
    and "MAVEN_PUBLISH_PASSWORD env = Some password"
  shows "CHR '':'' \<notin> set password"
proof -
  from assms obtain decoded where
    "nth_opt (split_on CHR '':'' decoded) 1 = Some password"
    by (auto simp: validateBasicAuth_def Let_def split: option.splits if_splits)
  then have "password \<in> set (split_on CHR '':'' decoded)"
    by (rule nth_opt_mem)
  then show ?thesis by (rule split_on_no_sep)
qed

lemma validateBasicAuth_decoded:
  assumes "authorization request = Some h" and "startsWith h ''Basic ''"
    and "atob (drop 6 h) = Some decoded"
  shows "\<exists>r. validateBasicAuth request env = Inr r"
  using assms
  by (auto simp: validateBasicAuth_def Let_def split: option.splits)

section \<open>Colon in the password\<close>

text \<open>
  C10, as amended. When the configured password contains a colon, \<open>validateBasicAuth\<close>
  never returns \<open>true\<close>: it returns \<open>false\<close> for every request whose header is absent,
  does not start with \<open>Basic \<close>, or carries a token that \<open>atob\<close> decodes, and among these
  is the request whose token decodes to exactly \<open>username:password\<close>.
\<close>

theorem colon_password_never_authenticates:
  assumes "MAVEN_PUBLISH_PASSWORD env = Some password"
    and "CHR '':'' \<in> set password"
  shows "validateBasicAuth request env \<noteq> Inr True
       \<and> ((\<forall>h. authorization request = Some h \<and> startsWith h ''Basic ''
                \<longrightarrow> atob (drop 6 h) \<noteq> None)
            \<longrightarrow> validateBasicAuth request env = Inr False)
       \<and> (authorization request = Some (''Basic '' @ token)
            \<and> atob token = Some (username @ '':'' @ password)
            \<longrightarrow> validateBasicAuth request env = Inr False)"
proof -
  have never: "validateBasicAuth request env \<noteq> Inr True"
    using validateBasicAuth_True_no_colon [of request env password] assms by blast
  have decodes: "validateBasicAuth request env = Inr False"
    if "\<forall>h. authorization request = Some h \<and> startsWith h ''Basic '' \<longrightarrow> atob (drop 6 h) \<noteq> None"
  proof (cases "authorization request")
    case None
    then show ?thesis by (simp add: validateBasicAuth_def)
  next
    case (Some h)
    show ?thesis
    proof (cases "startsWith h ''Basic ''")
      case False
      with Some show ?thesis by (simp add: validateBasicAuth_def)
    next
      case True
      with Some that obtain decoded where "atob (drop 6 h) = Some decoded" by auto
      with Some True obtain r where "validateBasicAuth request env = Inr r"
        using validateBasicAuth_decoded by blast
      with never show ?thesis by (cases r) auto
    qed
  qed
  have correct: "validateBasicAuth request env = Inr False"
    if "authorization request = Some (''Basic '' @ token)
        \<and> atob token = Some (username @ '':'' @ password)"
  proof -
    from that have "\<forall>h. authorization request = Some h \<and> startsWith h ''Basic ''
        \<longrightarrow> atob (drop 6 h) \<noteq> None"
      by auto
    then show ?thesis by (rule decodes)
  qed
  from never decodes correct show ?thesis by blast
qed

theorem colon_password_never_authenticates_witness:
  "MAVEN_PUBLISH_PASSWORD \<lparr>MAVEN_PUBLISH_USERNAME = Some ''u'', MAVEN_PUBLISH_PASSWORD = Some ''a:b''\<rparr>
     = Some ''a:b''
   \<and> CHR '':'' \<in> set ''a:b''
   \<and> atob ''dTphOmI='' = Some (''u'' @ '':'' @ ''a:b'')
   \<and> validateBasicAuth
         \<lparr>pathname = ''/releases/com/iamkaf/amber/1.0.0/amber-1.0.0.jar'',
          authorization = Some ''Basic dTphOmI='', searchParams = [], body = ''jar''\<rparr>
         \<lparr>MAVEN_PUBLISH_USERNAME = Some ''u'', MAVEN_PUBLISH_PASSWORD = Some ''a:b''\<rparr>
       = Inr False"
proof -
  have dec: "atob ''dTphOmI='' = Some (''u'' @ '':'' @ ''a:b'')"
    by (simp add: atob_def strip_padding_def endsWith_def suffix_to_prefix b64_alphabet_def
        char_of_def bit_0)
  show ?thesis
    using colon_password_never_authenticates
      [of "\<lparr>MAVEN_PUBLISH_USERNAME = Some ''u'', MAVEN_PUBLISH_PASSWORD = Some ''a:b''\<rparr>"
          "''a:b''"
          "\<lparr>pathname = ''/releases/com/iamkaf/amber/1.0.0/amber-1.0.0.jar'',
            authorization = Some ''Basic dTphOmI='', searchParams = [], body = ''jar''\<rparr>"
          "''dTphOmI=''" "''u''"]
      dec
    by simp
qed

text \<open>
  The claim as stated, that \<open>false\<close> is returned for every request, fails where the token
  is not base64: \<open>atob\<close> throws and so does \<open>validateBasicAuth\<close>.
\<close>

theorem colon_password_malformed_token_counterexample:
  "CHR '':'' \<in> set ''a:b''
   \<and> validateBasicAuth
         \<lparr>pathname = ''/releases/com/iamkaf/amber/1.0.0/amber-1.0.0.jar'',
          authorization = Some ''Basic !'', searchParams = [], body = ''jar''\<rparr>
         \<lparr>MAVEN_PUBLISH_USERNAME = Some ''u'', MAVEN_PUBLISH_PASSWORD = Some ''a:b''\<rparr>
       = Inl InvalidCharacterError"
  by (simp add: validateBasicAuth_def startsWith_def atob_def strip_padding_def endsWith_def
      suffix_to_prefix b64_alphabet_def)


section \<open>Lemmas on the object store\<close>

lemma r2_fault_ok: "faults b = [] \<Longrightarrow> r2_fault b = (None, b)"
  by (simp add: r2_fault_def)

lemma r2_head_ok: "faults b = [] \<Longrightarrow> r2_head b k = (Inr (map_of (objects b) k \<noteq> None), b)"
  by (simp add: r2_head_def r2_fault_ok)

lemma r2_get_ok: "faults b = [] \<Longrightarrow> r2_get b k = (Inr (map_of (objects b) k), b)"
  by (simp add: r2_get_def r2_fault_ok)

lemma r2_put_ok:
  "faults b = [] \<Longrightarrow> r2_put b k v = (Inr (), b\<lparr>objects := AList.update k v (objects b)\<rparr>)"
  by (simp add: r2_put_def r2_fault_ok)

lemma r2_delete_ok:
  "faults b = [] \<Longrightarrow>
   r2_delete b ks = (Inr (), b\<lparr>objects := filter (\<lambda>kv. fst kv \<notin> set ks) (objects b)\<rparr>)"
  by (simp add: r2_delete_def r2_fault_ok)


lemma r2_head_objects: "r2_head b k = (x, b') \<Longrightarrow> objects b' = objects b"
  by (auto simp: r2_head_def r2_fault_def split: list.splits option.splits)

lemma r2_get_objects: "r2_get b k = (x, b') \<Longrightarrow> objects b' = objects b"
  by (auto simp: r2_get_def r2_fault_def split: list.splits option.splits)

lemma r2_list_objects: "r2_list b pre cur lmt = (x, b') \<Longrightarrow> objects b' = objects b"
  by (auto simp: r2_list_def r2_fault_def Let_def split: list.splits option.splits)

lemma r2_put_cases:
  "r2_put b k v = (x, b') \<Longrightarrow>
     (x = Inr () \<and> objects b' = AList.update k v (objects b))
     \<or> ((\<exists>m. x = Inl (StorageError m)) \<and> objects b' = objects b)"
  by (auto simp: r2_put_def r2_fault_def split: list.splits option.splits)

lemma checkVersionExists_objects:
  "checkVersionExists g a v b = (x, b') \<Longrightarrow> objects b' = objects b"
  by (auto simp: checkVersionExists_def Let_def split: prod.splits sum.splits
      dest: r2_list_objects)

section \<open>Lemmas on the release handlers\<close>

lemma parts_simps:
  "length (gs @ [a, v, f]) - 1 = length gs + 2"
  "length (gs @ [a, v, f]) - 2 = length gs + 1"
  "length (gs @ [a, v, f]) - 3 = length gs"
  "(gs @ [a, v, f]) ! Suc (Suc (length gs)) = f"
  "(gs @ [a, v, f]) ! Suc (length gs) = v"
  "(gs @ [a, v, f]) ! (length gs) = a"
  "take (length gs) (gs @ [a, v, f]) = gs"
  "\<not> length (gs @ [a, v, f]) < 3"
  "gs \<noteq> [] \<Longrightarrow> \<not> length (gs @ [a, v, f]) < 4"
  "gs \<noteq> [] \<Longrightarrow> length (gs @ [a, v, f]) \<noteq> 3"
  by (auto simp: nth_append)

lemma handleReleasePut_parsed:
  assumes "validateBasicAuth request env = Inr True"
    and "pathname request = ''/releases/'' @ mavenPath"
    and "split_on CHR ''/'' mavenPath = gs @ [a, v, f]"
    and "gs \<noteq> []"
  shows "handleReleasePut request env b =
     (if \<not> list_ex (\<lambda>ext. endsWith f ext) validExtensions
      then (Inr (errorResponse ''Invalid file type'' 400), b)
      else if \<not> endsWith f ''.sha1'' \<and> \<not> endsWith f ''.sha256''
               \<and> \<not> endsWith f ''.sha512'' \<and> \<not> endsWith f ''.md5''
               \<and> \<not> includes_str f ''maven-metadata''
      then (case r2_head b (join_with ''/'' gs @ ''/'' @ a @ ''/'' @ v @ ''/'' @ f) of
              (Inl e, b1) \<Rightarrow> (Inl e, b1)
            | (Inr True, b1) \<Rightarrow>
                (Inr \<lparr>status = 409, payload = Text (''File '' @ f @ '' already exists'')\<rparr>, b1)
            | (Inr False, b1) \<Rightarrow>
                (case r2_put b1 (join_with ''/'' gs @ ''/'' @ a @ ''/'' @ v @ ''/'' @ f) (body request) of
                   (Inl e, b2) \<Rightarrow> (Inl e, b2)
                 | (Inr u, b2) \<Rightarrow> (Inr okResponse, b2)))
      else (case r2_put b (join_with ''/'' gs @ ''/'' @ a @ ''/'' @ v @ ''/'' @ f) (body request) of
              (Inl e, b2) \<Rightarrow> (Inl e, b2)
            | (Inr u, b2) \<Rightarrow> (Inr okResponse, b2)))"
  using assms
  by (simp add: handleReleasePut_def Let_def parts_simps startsWith_def
      cong: prod.case_cong sum.case_cong bool.case_cong)

lemma handlePublishPut_parsed:
  assumes "validateBasicAuth request env = Inr True"
    and "pathname request = ''/publish/'' @ mavenPath"
    and "split_on CHR ''/'' mavenPath = gs @ [a, v, f]"
    and "gs \<noteq> []"
  shows "handlePublishPut request env b =
     (if \<not> list_ex (\<lambda>ext. endsWith f ext) validExtensions_publish
      then (Inr (errorResponse ''Invalid file type'' 400), b)
      else if \<not> endsWith f ''.sha1'' \<and> \<not> endsWith f ''.sha256''
               \<and> \<not> includes_str f ''maven-metadata''
      then (case checkVersionExists (join_with ''/'' gs) a v b of
              (Inl e, b1) \<Rightarrow> (Inl e, b1)
            | (Inr True, b1) \<Rightarrow>
                (Inr \<lparr>status = 409, payload = Text (''Version '' @ v @ '' already exists'')\<rparr>, b1)
            | (Inr False, b1) \<Rightarrow>
                (case r2_put b1 (join_with ''/'' gs @ ''/'' @ a @ ''/'' @ v @ ''/'' @ f) (body request) of
                   (Inl e, b2) \<Rightarrow> (Inl e, b2)
                 | (Inr u, b2) \<Rightarrow> (Inr okResponse, b2)))
      else (case r2_put b (join_with ''/'' gs @ ''/'' @ a @ ''/'' @ v @ ''/'' @ f) (body request) of
              (Inl e, b2) \<Rightarrow> (Inl e, b2)
            | (Inr u, b2) \<Rightarrow> (Inr okResponse, b2)))"
  using assms
  by (simp add: handlePublishPut_def Let_def parts_simps startsWith_def
      cong: prod.case_cong sum.case_cong bool.case_cong)

lemma handleReleasePut_outcome:
  assumes "pathname request = ''/releases/'' @ mavenPath"
    and "split_on CHR ''/'' mavenPath = gs @ [a, v, f]"
    and "gs \<noteq> []"
    and "handleReleasePut request env b = (x, b')"
  shows "(x = Inr okResponse
           \<and> objects b' = AList.update (join_with ''/'' gs @ ''/'' @ a @ ''/'' @ v @ ''/'' @ f)
                             (body request) (objects b))
       \<or> ((\<forall>r. x = Inr r \<longrightarrow> status r \<noteq> 200) \<and> objects b' = objects b)"
proof (cases "validateBasicAuth request env")
  case (Inl e)
  with assms(4) show ?thesis by (auto simp: handleReleasePut_def)
next
  case (Inr ok)
  show ?thesis
  proof (cases ok)
    case False
    with Inr assms(4) show ?thesis
      by (auto simp: handleReleasePut_def unauthorizedResponse_def)
  next
    case True
    from Inr True have auth: "validateBasicAuth request env = Inr True" by simp
    note p = handleReleasePut_parsed [OF auth assms(1-3), of b]
    show ?thesis
      using assms(4) unfolding p
      by (auto simp: okResponse_def errorResponse_def
          split: if_splits prod.splits sum.splits bool.splits
          dest!: r2_head_objects r2_put_cases)
  qed
qed

lemma handlePublishPut_outcome:
  assumes "pathname request = ''/publish/'' @ mavenPath"
    and "split_on CHR ''/'' mavenPath = gs @ [a, v, f]"
    and "gs \<noteq> []"
    and "handlePublishPut request env b = (x, b')"
  shows "(x = Inr okResponse
           \<and> objects b' = AList.update (join_with ''/'' gs @ ''/'' @ a @ ''/'' @ v @ ''/'' @ f)
                             (body request) (objects b))
       \<or> ((\<forall>r. x = Inr r \<longrightarrow> status r \<noteq> 200) \<and> objects b' = objects b)"
proof (cases "validateBasicAuth request env")
  case (Inl e)
  with assms(4) show ?thesis by (auto simp: handlePublishPut_def)
next
  case (Inr ok)
  show ?thesis
  proof (cases ok)
    case False
    with Inr assms(4) show ?thesis
      by (auto simp: handlePublishPut_def unauthorizedResponse_def)
  next
    case True
    from Inr True have auth: "validateBasicAuth request env = Inr True" by simp
    note p = handlePublishPut_parsed [OF auth assms(1-3), of b]
    show ?thesis
      using assms(4) unfolding p
      by (auto simp: okResponse_def errorResponse_def
          split: if_splits prod.splits sum.splits bool.splits
          dest!: checkVersionExists_objects r2_put_cases)
  qed
qed

lemma file_key_not_metadata_key:
  "g @ ''/'' @ a @ ''/'' @ v @ ''/'' @ f \<noteq> g @ ''/'' @ a @ ''/maven-metadata.xml''"
proof
  assume "g @ ''/'' @ a @ ''/'' @ v @ ''/'' @ f = g @ ''/'' @ a @ ''/maven-metadata.xml''"
  then have "v @ ''/'' @ f = ''maven-metadata.xml''" by simp
  moreover have "CHR ''/'' \<in> set (v @ ''/'' @ f)" by simp
  ultimately have "CHR ''/'' \<in> set ''maven-metadata.xml''" by simp
  then show False by simp
qed

lemma map_of_update_other:
  "k' \<noteq> k \<Longrightarrow> map_of (AList.update k v al) k' = map_of al k'"
  by (simp add: update_conv')



lemma auth_maven_secret:
  "authorization request = Some ''Basic bWF2ZW46c2VjcmV0'' \<Longrightarrow>
   validateBasicAuth request
     \<lparr>MAVEN_PUBLISH_USERNAME = Some ''maven'', MAVEN_PUBLISH_PASSWORD = Some ''secret''\<rparr>
   = Inr True"
  by (simp add: validateBasicAuth_def startsWith_def atob_def strip_padding_def endsWith_def
      suffix_to_prefix b64_alphabet_def char_of_def bit_0 nth_opt_def)

lemmas eval_strings = startsWith_def endsWith_def includes_str_def suffix_to_prefix
  sublist_Cons_right

section \<open>Release uploads and the artifact-level metadata\<close>

text \<open>
  C2, as amended. A release upload writes at most one object, the uploaded file under its
  literal key \<open>groupPath/artifactId/version/fileName\<close>, and it writes it exactly when the
  answer is 200. The artifact-level \<open>maven-metadata.xml\<close> of the coordinates is neither
  read nor written: it is after the upload what it was before. This holds for
  \<open>handleReleasePut\<close> and for \<open>handlePublishPut\<close>.
\<close>

theorem release_upload_stores_only_the_file:
  assumes "split_on CHR ''/'' mavenPath = gs @ [a, v, f]" and "gs \<noteq> []"
  shows "(pathname request = ''/releases/'' @ mavenPath
            \<and> handleReleasePut request env b = (x, b')
          \<longrightarrow> map_of (objects b') (join_with ''/'' gs @ ''/'' @ a @ ''/maven-metadata.xml'')
                = map_of (objects b) (join_with ''/'' gs @ ''/'' @ a @ ''/maven-metadata.xml'')
              \<and> ((\<exists>r. x = Inr r \<and> status r = 200)
                   \<longrightarrow> objects b' = AList.update
                                      (join_with ''/'' gs @ ''/'' @ a @ ''/'' @ v @ ''/'' @ f)
                                      (body request) (objects b))
              \<and> (\<not> (\<exists>r. x = Inr r \<and> status r = 200) \<longrightarrow> objects b' = objects b))
       \<and> (pathname request = ''/publish/'' @ mavenPath
            \<and> handlePublishPut request env b = (x, b')
          \<longrightarrow> map_of (objects b') (join_with ''/'' gs @ ''/'' @ a @ ''/maven-metadata.xml'')
                = map_of (objects b) (join_with ''/'' gs @ ''/'' @ a @ ''/maven-metadata.xml'')
              \<and> ((\<exists>r. x = Inr r \<and> status r = 200)
                   \<longrightarrow> objects b' = AList.update
                                      (join_with ''/'' gs @ ''/'' @ a @ ''/'' @ v @ ''/'' @ f)
                                      (body request) (objects b))
              \<and> (\<not> (\<exists>r. x = Inr r \<and> status r = 200) \<longrightarrow> objects b' = objects b))"
proof -
  let ?key = "join_with ''/'' gs @ ''/'' @ a @ ''/'' @ v @ ''/'' @ f"
  let ?meta = "join_with ''/'' gs @ ''/'' @ a @ ''/maven-metadata.xml''"
  have ne: "?meta \<noteq> ?key"
    using file_key_not_metadata_key [of "join_with ''/'' gs" a v f] by simp
  have gen: "map_of (objects b') ?meta = map_of (objects b) ?meta
              \<and> ((\<exists>r. x = Inr r \<and> status r = 200)
                   \<longrightarrow> objects b' = AList.update ?key (body request) (objects b))
              \<and> (\<not> (\<exists>r. x = Inr r \<and> status r = 200) \<longrightarrow> objects b' = objects b)"
    if "(x = Inr okResponse \<and> objects b' = AList.update ?key (body request) (objects b))
       \<or> ((\<forall>r. x = Inr r \<longrightarrow> status r \<noteq> 200) \<and> objects b' = objects b)"
    using that ne by (auto simp: map_of_update_other okResponse_def)
  show ?thesis
    using gen handleReleasePut_outcome [OF _ assms, of request env b x b']
      handlePublishPut_outcome [OF _ assms, of request env b x b']
    by blast
qed

theorem release_upload_stores_only_the_file_witness:
  "split_on CHR ''/'' ''com/iamkaf/amber/1.0.0/amber-1.0.0.jar''
     = [''com'', ''iamkaf''] @ [''amber'', ''1.0.0'', ''amber-1.0.0.jar'']
   \<and> [''com'', ''iamkaf''] \<noteq> []
   \<and> handleReleasePut
        \<lparr>pathname = ''/releases/'' @ ''com/iamkaf/amber/1.0.0/amber-1.0.0.jar'',
         authorization = Some ''Basic bWF2ZW46c2VjcmV0'', searchParams = [], body = ''jar''\<rparr>
        \<lparr>MAVEN_PUBLISH_USERNAME = Some ''maven'', MAVEN_PUBLISH_PASSWORD = Some ''secret''\<rparr>
        \<lparr>objects = [(''com/iamkaf/amber/maven-metadata.xml'', ''<metadata/>'')], faults = [],
         list_limit = 1000\<rparr>
      = (Inr okResponse,
         \<lparr>objects = [(''com/iamkaf/amber/maven-metadata.xml'', ''<metadata/>''),
                     (''com/iamkaf/amber/1.0.0/amber-1.0.0.jar'', ''jar'')],
          faults = [], list_limit = 1000\<rparr>)
   \<and> handlePublishPut
        \<lparr>pathname = ''/publish/'' @ ''com/iamkaf/amber/1.0.0/amber-1.0.0.jar'',
         authorization = Some ''Basic bWF2ZW46c2VjcmV0'', searchParams = [], body = ''jar''\<rparr>
        \<lparr>MAVEN_PUBLISH_USERNAME = Some ''maven'', MAVEN_PUBLISH_PASSWORD = Some ''secret''\<rparr>
        \<lparr>objects = [(''com/iamkaf/amber/maven-metadata.xml'', ''<metadata/>'')], faults = [],
         list_limit = 1000\<rparr>
      = (Inr okResponse,
         \<lparr>objects = [(''com/iamkaf/amber/maven-metadata.xml'', ''<metadata/>''),
                     (''com/iamkaf/amber/1.0.0/amber-1.0.0.jar'', ''jar'')],
          faults = [], list_limit = 1000\<rparr>)
   \<and> map_of [(''com/iamkaf/amber/maven-metadata.xml'', ''<metadata/>''),
              (''com/iamkaf/amber/1.0.0/amber-1.0.0.jar'', ''jar'')]
        (join_with ''/'' [''com'', ''iamkaf''] @ ''/'' @ ''amber'' @ ''/maven-metadata.xml'')
      = Some ''<metadata/>''"
proof -
  let ?env = "\<lparr>MAVEN_PUBLISH_USERNAME = Some ''maven'', MAVEN_PUBLISH_PASSWORD = Some ''secret''\<rparr>"
  let ?b = "\<lparr>objects = [(''com/iamkaf/amber/maven-metadata.xml'', ''<metadata/>'')], faults = [],
         list_limit = 1000\<rparr>"
  let ?b' = "\<lparr>objects = [(''com/iamkaf/amber/maven-metadata.xml'', ''<metadata/>''),
                     (''com/iamkaf/amber/1.0.0/amber-1.0.0.jar'', ''jar'')],
          faults = [], list_limit = 1000\<rparr>"
  let ?r1 = "\<lparr>pathname = ''/releases/'' @ ''com/iamkaf/amber/1.0.0/amber-1.0.0.jar'',
         authorization = Some ''Basic bWF2ZW46c2VjcmV0'', searchParams = [], body = ''jar''\<rparr>"
  let ?r2 = "\<lparr>pathname = ''/publish/'' @ ''com/iamkaf/amber/1.0.0/amber-1.0.0.jar'',
         authorization = Some ''Basic bWF2ZW46c2VjcmV0'', searchParams = [], body = ''jar''\<rparr>"
  have s: "split_on CHR ''/'' ''com/iamkaf/amber/1.0.0/amber-1.0.0.jar''
     = [''com'', ''iamkaf''] @ [''amber'', ''1.0.0'', ''amber-1.0.0.jar'']"
    by simp
  have n: "[''com'', ''iamkaf''] \<noteq> []" by simp
  have h1: "handleReleasePut ?r1 ?env ?b = (Inr okResponse, ?b')"
    by (simp add: handleReleasePut_def auth_maven_secret Let_def eval_strings validExtensions_def
        r2_head_ok r2_put_ok)
  have h2: "handlePublishPut ?r2 ?env ?b = (Inr okResponse, ?b')"
    by (simp add: handlePublishPut_def auth_maven_secret Let_def eval_strings
        validExtensions_publish_def checkVersionExists_def r2_list_def r2_fault_ok r2_keys_def
        page_size_def after_cursor_def r2_put_ok)
  from release_upload_stores_only_the_file [OF s n, of ?r1 ?env ?b "Inr okResponse" ?b']
    release_upload_stores_only_the_file [OF s n, of ?r2 ?env ?b "Inr okResponse" ?b']
    s n h1 h2
  show ?thesis by simp
qed

text \<open>
  The claim as stated fails on the first release of a version: the answer is 200 and the
  bucket holds the jar and no \<open>maven-metadata.xml\<close> for the artifact.
\<close>

theorem release_upload_writes_no_metadata_counterexample:
  "handleReleasePut
     \<lparr>pathname = ''/releases/com/iamkaf/amber/1.0.0/amber-1.0.0.jar'',
      authorization = Some ''Basic bWF2ZW46c2VjcmV0'', searchParams = [], body = ''jar''\<rparr>
     \<lparr>MAVEN_PUBLISH_USERNAME = Some ''maven'', MAVEN_PUBLISH_PASSWORD = Some ''secret''\<rparr>
     \<lparr>objects = [], faults = [], list_limit = 1000\<rparr>
   = (Inr okResponse,
      \<lparr>objects = [(''com/iamkaf/amber/1.0.0/amber-1.0.0.jar'', ''jar'')], faults = [],
       list_limit = 1000\<rparr>)
   \<and> map_of [(''com/iamkaf/amber/1.0.0/amber-1.0.0.jar'', ''jar'')]
        ''com/iamkaf/amber/maven-metadata.xml'' = None"
  by (simp add: handleReleasePut_def auth_maven_secret Let_def eval_strings validExtensions_def
      r2_head_ok r2_put_ok)


section \<open>Release immutability\<close>


lemma map_of_update_same: "map_of (AList.update k v al) k = Some v"
  by (simp add: update_conv')









section \<open>Lemmas on the snapshot handlers\<close>

lemma handleSnapshotPut_parsed:
  assumes "validateBasicAuth request env = Inr True"
    and "pathname request = ''/snapshots/'' @ mavenPath"
    and "split_on CHR ''/'' mavenPath = gs @ [a, v, f]"
    and "gs \<noteq> []"
  shows "handleSnapshotPut request env b =
     (if \<not> endsWith v ''-SNAPSHOT'' \<and> \<not> includes_str f ''maven-metadata''
      then (Inr (errorResponse ''Version must end with -SNAPSHOT'' 400), b)
      else (case r2_put b (join_with ''/'' gs @ ''/'' @ a @ ''/'' @ v @ ''/'' @ f) (body request) of
              (Inl e, b2) \<Rightarrow> (Inl e, b2)
            | (Inr u, b2) \<Rightarrow> (Inr okResponse, b2)))"
  using assms
  by (simp add: handleSnapshotPut_def Let_def parts_simps startsWith_def
      cong: prod.case_cong sum.case_cong bool.case_cong)

lemma handleSnapshotPut_v1_rejects:
  assumes "validateBasicAuth request env = Inr True"
    and "pathname request = ''/snapshots/'' @ mavenPath"
    and "split_on CHR ''/'' mavenPath = gs @ [a, v, f]"
    and "gs \<noteq> []"
  shows "\<not> endsWith v ''-SNAPSHOT'' \<Longrightarrow>
           handleSnapshotPut_v1 parse build now1 now2 request env b
           = (Inr (errorResponse ''Version must end with -SNAPSHOT'' 400), b)"
    and "endsWith v ''-SNAPSHOT'' \<Longrightarrow>
         \<not> list_ex (\<lambda>ext. endsWith f ext) validExtensions_snapshot \<Longrightarrow>
           handleSnapshotPut_v1 parse build now1 now2 request env b
           = (Inr (errorResponse ''Invalid file type'' 400), b)"
    and "endsWith v ''-SNAPSHOT'' \<Longrightarrow>
         list_ex (\<lambda>ext. endsWith f ext) validExtensions_snapshot \<Longrightarrow>
         handleSnapshotPut_v1 parse build now1 now2 request env b = (Inr r, b') \<Longrightarrow>
           status r = 200"
  using assms
  by (auto simp: handleSnapshotPut_v1_def Let_def parts_simps startsWith_def
      split: prod.splits sum.splits)


section \<open>What the snapshot handlers do with other uploads\<close>

lemma handleSnapshotPut_three:
  assumes "validateBasicAuth request env = Inr True"
    and "pathname request = ''/snapshots/'' @ mavenPath"
    and "split_on CHR ''/'' mavenPath = [g, a, f]"
  shows "handleSnapshotPut request env b =
     (if f = ''maven-metadata.xml''
      then (case r2_put b (g @ ''/'' @ a @ ''/'' @ f) (body request) of
              (Inl e, b2) \<Rightarrow> (Inl e, b2)
            | (Inr u, b2) \<Rightarrow> (Inr okResponse, b2))
      else (Inr (errorResponse ''Invalid path format'' 400), b))"
  using assms
  by (simp add: handleSnapshotPut_def Let_def startsWith_def
      cong: prod.case_cong sum.case_cong bool.case_cong)

lemma handleSnapshotPut_short:
  assumes "validateBasicAuth request env = Inr True"
    and "pathname request = ''/snapshots/'' @ mavenPath"
    and "length (split_on CHR ''/'' mavenPath) < 3"
  shows "handleSnapshotPut request env b = (Inr (errorResponse ''Invalid path format'' 400), b)"
  using assms
  by (simp add: handleSnapshotPut_def Let_def startsWith_def)

lemma handleSnapshotPut_v1_short:
  assumes "validateBasicAuth request env = Inr True"
    and "pathname request = ''/snapshots/'' @ mavenPath"
    and "length (split_on CHR ''/'' mavenPath) < 4"
  shows "handleSnapshotPut_v1 parse build now1 now2 request env b
         = (Inr (errorResponse ''Invalid path format'' 400), b)"
  using assms
  by (simp add: handleSnapshotPut_v1_def Let_def startsWith_def)

lemma no_metadata_name: "\<not> includes_str f ''maven-metadata'' \<Longrightarrow> f \<noteq> ''maven-metadata.xml''"
  by (auto simp: includes_str_def sublist_Cons_right)

lemma join_with_snoc: "xs \<noteq> [] \<Longrightarrow> join_with d (xs @ [x]) = join_with d xs @ d @ x"
  by (induction d xs rule: join_with.induct) simp_all

text \<open>
  An authenticated upload whose version segment does not end in \<open>-SNAPSHOT\<close> and whose
  file name does not contain \<open>maven-metadata\<close> is answered with a 400 by both handlers, and
  nothing is stored.
\<close>

lemma handleSnapshotPut_rejected:
  assumes "validateBasicAuth request env = Inr True"
    and "pathname request = ''/snapshots/'' @ mavenPath"
    and "split_on CHR ''/'' mavenPath = ps @ [v, f]"
    and "\<not> endsWith v ''-SNAPSHOT''" and "\<not> includes_str f ''maven-metadata''"
  shows "\<exists>msg. handleSnapshotPut request env b = (Inr (errorResponse msg 400), b)"
    and "\<exists>msg. handleSnapshotPut_v1 parse build now1 now2 request env b
               = (Inr (errorResponse msg 400), b)"
proof -
  consider "ps = []" | x where "ps = [x]" | gs' a' where "ps = gs' @ [a']" "gs' \<noteq> []"
  proof (cases ps rule: rev_cases)
    case Nil
    then show ?thesis using that by simp
  next
    case (snoc ys y)
    then show ?thesis using that by (cases ys) auto
  qed
  then have "(\<exists>msg. handleSnapshotPut request env b = (Inr (errorResponse msg 400), b))
        \<and> (\<exists>msg. handleSnapshotPut_v1 parse build now1 now2 request env b
                   = (Inr (errorResponse msg 400), b))"
  proof cases
    case 1
    with assms(3) have "length (split_on CHR ''/'' mavenPath) < 3"
      and "length (split_on CHR ''/'' mavenPath) < 4" by simp_all
    from handleSnapshotPut_short [OF assms(1,2) this(1)]
      handleSnapshotPut_v1_short [OF assms(1,2) this(2)]
    show ?thesis by blast
  next
    case 2
    with assms(3) have s: "split_on CHR ''/'' mavenPath = [x, v, f]" by simp
    then have "length (split_on CHR ''/'' mavenPath) < 4" by simp
    from handleSnapshotPut_three [OF assms(1,2) s, of b] no_metadata_name [OF assms(5)]
      handleSnapshotPut_v1_short [OF assms(1,2) this]
    show ?thesis by auto
  next
    case 3
    with assms(3) have s: "split_on CHR ''/'' mavenPath = gs' @ [a', v, f]" by simp
    from handleSnapshotPut_parsed [OF assms(1,2) s 3(2), of b] assms(4,5)
      handleSnapshotPut_v1_rejects(1) [OF assms(1,2) s 3(2)]
    show ?thesis by auto
  qed
  then show "\<exists>msg. handleSnapshotPut request env b = (Inr (errorResponse msg 400), b)"
    and "\<exists>msg. handleSnapshotPut_v1 parse build now1 now2 request env b
               = (Inr (errorResponse msg 400), b)"
    by blast+
qed

text \<open>
  The path \<open>groupPath/artifactId/maven-metadata.xml\<close>, for a group path of any number of
  segments: the body is stored at that key. A group path of one segment takes the
  three-part branch; a longer one takes the general branch, where the last segment of the
  group path stands in for the artifact and the artifact for the version, and passes
  because the file name contains \<open>maven-metadata\<close>.
\<close>

lemma handleSnapshotPut_metadata_path:
  assumes "validateBasicAuth request env = Inr True"
    and "pathname request = ''/snapshots/'' @ mavenPath"
    and "split_on CHR ''/'' mavenPath = gs @ [a, ''maven-metadata.xml'']"
    and "gs \<noteq> []"
    and "faults b = []"
  shows "handleSnapshotPut request env b
         = (Inr okResponse,
            b\<lparr>objects := AList.update (join_with ''/'' gs @ ''/'' @ a @ ''/maven-metadata.xml'')
                           (body request) (objects b)\<rparr>)"
proof (cases gs rule: rev_cases)
  case Nil
  with assms(4) show ?thesis by simp
next
  case (snoc gs' g)
  show ?thesis
  proof (cases "gs' = []")
    case True
    with snoc assms(3) have s: "split_on CHR ''/'' mavenPath = [g, a, ''maven-metadata.xml'']"
      by simp
    from handleSnapshotPut_three [OF assms(1,2) s, of b] assms(5) snoc True
    show ?thesis by (simp add: r2_put_ok)
  next
    case False
    from snoc assms(3)
    have s: "split_on CHR ''/'' mavenPath = gs' @ [g, a, ''maven-metadata.xml'']" by simp
    have i: "includes_str ''maven-metadata.xml'' ''maven-metadata''"
      by (simp add: eval_strings)
    have j: "join_with ''/'' gs = join_with ''/'' gs' @ ''/'' @ g"
      unfolding snoc using False by (rule join_with_snoc)
    from handleSnapshotPut_parsed [OF assms(1,2) s False, of b] i assms(5)
    show ?thesis by (simp add: r2_put_ok j)
  qed
qed

text \<open>
  The trusting handler stores an upload under a version that ends in \<open>-SNAPSHOT\<close> at
  \<open>groupPath/artifactId/version/fileName\<close>, with the file name that the caller sent.
\<close>

lemma handleSnapshotPut_stored:
  assumes "validateBasicAuth request env = Inr True"
    and "pathname request = ''/snapshots/'' @ mavenPath"
    and "split_on CHR ''/'' mavenPath = gs @ [a, v, f]"
    and "gs \<noteq> []"
    and "endsWith v ''-SNAPSHOT''"
    and "faults b = []"
  shows "handleSnapshotPut request env b
         = (Inr okResponse,
            b\<lparr>objects := AList.update (join_with ''/'' gs @ ''/'' @ a @ ''/'' @ v @ ''/'' @ f)
                           (body request) (objects b)\<rparr>)"
  using handleSnapshotPut_parsed [OF assms(1-4), of b] assms(5,6)
  by (simp add: r2_put_ok)

section \<open>Snapshot upload validation\<close>

text \<open>
  C6. The test of the version segment in the trusting \<open>handleSnapshotPut\<close> lets through
  every file name that contains \<open>maven-metadata\<close>, not only metadata files. For an
  authenticated upload to \<open>/snapshots/groupPath/artifactId/version/fileName\<close> whose version
  does not end in \<open>-SNAPSHOT\<close> and whose file name contains \<open>maven-metadata\<close>, on a bucket
  that does not fail, the handler stores the body at
  \<open>groupPath/artifactId/version/fileName\<close> and answers 200, whatever kind of file it is.
  The handler that computes the file names answers the same request with 400 and stores
  nothing.
\<close>

theorem snapshot_version_check_substring_exemption:
  assumes "validateBasicAuth request env = Inr True"
    and "pathname request = ''/snapshots/'' @ mavenPath"
    and "split_on CHR ''/'' mavenPath = gs @ [a, v, f]"
    and "gs \<noteq> []"
    and "\<not> endsWith v ''-SNAPSHOT''"
    and "includes_str f ''maven-metadata''"
    and "faults b = []"
  shows "handleSnapshotPut request env b
         = (Inr okResponse,
            b\<lparr>objects := AList.update (join_with ''/'' gs @ ''/'' @ a @ ''/'' @ v @ ''/'' @ f)
                           (body request) (objects b)\<rparr>)
       \<and> handleSnapshotPut_v1 parse build now1 now2 request env b
         = (Inr (errorResponse ''Version must end with -SNAPSHOT'' 400), b)"
proof
  show "handleSnapshotPut request env b
         = (Inr okResponse,
            b\<lparr>objects := AList.update (join_with ''/'' gs @ ''/'' @ a @ ''/'' @ v @ ''/'' @ f)
                           (body request) (objects b)\<rparr>)"
    using handleSnapshotPut_parsed [OF assms(1-4), of b] assms(5-7)
    by (simp add: r2_put_ok)
  show "handleSnapshotPut_v1 parse build now1 now2 request env b
         = (Inr (errorResponse ''Version must end with -SNAPSHOT'' 400), b)"
    using assms(5) by (rule handleSnapshotPut_v1_rejects(1) [OF assms(1-4)])
qed

text \<open>
  A jar of the artifact \<open>maven-metadata-plugin\<close>, uploaded under the release version \<open>1.0\<close>
  to the snapshot endpoint, is stored with 200.
\<close>

theorem snapshot_version_check_substring_exemption_witness:
  "validateBasicAuth
     \<lparr>pathname = ''/snapshots/''
                  @ ''com/iamkaf/maven-metadata-plugin/1.0/maven-metadata-plugin-1.0.jar'',
      authorization = Some ''Basic bWF2ZW46c2VjcmV0'', searchParams = [], body = ''jar''\<rparr>
     \<lparr>MAVEN_PUBLISH_USERNAME = Some ''maven'', MAVEN_PUBLISH_PASSWORD = Some ''secret''\<rparr>
   = Inr True
   \<and> split_on CHR ''/'' ''com/iamkaf/maven-metadata-plugin/1.0/maven-metadata-plugin-1.0.jar''
     = [''com'', ''iamkaf''] @ [''maven-metadata-plugin'', ''1.0'', ''maven-metadata-plugin-1.0.jar'']
   \<and> \<not> endsWith ''1.0'' ''-SNAPSHOT''
   \<and> includes_str ''maven-metadata-plugin-1.0.jar'' ''maven-metadata''
   \<and> endsWith ''maven-metadata-plugin-1.0.jar'' ''.jar''
   \<and> handleSnapshotPut
        \<lparr>pathname = ''/snapshots/''
                     @ ''com/iamkaf/maven-metadata-plugin/1.0/maven-metadata-plugin-1.0.jar'',
         authorization = Some ''Basic bWF2ZW46c2VjcmV0'', searchParams = [], body = ''jar''\<rparr>
        \<lparr>MAVEN_PUBLISH_USERNAME = Some ''maven'', MAVEN_PUBLISH_PASSWORD = Some ''secret''\<rparr>
        \<lparr>objects = [], faults = [], list_limit = 1000\<rparr>
      = (Inr okResponse,
         \<lparr>objects = [(''com/iamkaf/maven-metadata-plugin/1.0/maven-metadata-plugin-1.0.jar'',
                       ''jar'')],
          faults = [], list_limit = 1000\<rparr>)
   \<and> handleSnapshotPut_v1 (\<lambda>xml. None) (\<lambda>doc. ''<metadata/>'')
        \<lparr>utcFullYear = 2025, utcMonth = 0, utcDate = 21, utcHours = 14, utcMinutes = 30,
         utcSeconds = 52\<rparr>
        \<lparr>utcFullYear = 2025, utcMonth = 0, utcDate = 21, utcHours = 14, utcMinutes = 30,
         utcSeconds = 53\<rparr>
        \<lparr>pathname = ''/snapshots/''
                     @ ''com/iamkaf/maven-metadata-plugin/1.0/maven-metadata-plugin-1.0.jar'',
         authorization = Some ''Basic bWF2ZW46c2VjcmV0'', searchParams = [], body = ''jar''\<rparr>
        \<lparr>MAVEN_PUBLISH_USERNAME = Some ''maven'', MAVEN_PUBLISH_PASSWORD = Some ''secret''\<rparr>
        \<lparr>objects = [], faults = [], list_limit = 1000\<rparr>
      = (Inr (errorResponse ''Version must end with -SNAPSHOT'' 400),
         \<lparr>objects = [], faults = [], list_limit = 1000\<rparr>)"
proof -
  let ?env = "\<lparr>MAVEN_PUBLISH_USERNAME = Some ''maven'', MAVEN_PUBLISH_PASSWORD = Some ''secret''\<rparr>"
  let ?b = "\<lparr>objects = [], faults = [], list_limit = 1000\<rparr>"
  let ?r = "\<lparr>pathname = ''/snapshots/''
                  @ ''com/iamkaf/maven-metadata-plugin/1.0/maven-metadata-plugin-1.0.jar'',
      authorization = Some ''Basic bWF2ZW46c2VjcmV0'', searchParams = [], body = ''jar''\<rparr>"
  have a: "validateBasicAuth ?r ?env = Inr True" by (simp add: auth_maven_secret)
  have p: "pathname ?r = ''/snapshots/''
                  @ ''com/iamkaf/maven-metadata-plugin/1.0/maven-metadata-plugin-1.0.jar''"
    by simp
  have s: "split_on CHR ''/'' ''com/iamkaf/maven-metadata-plugin/1.0/maven-metadata-plugin-1.0.jar''
     = [''com'', ''iamkaf''] @ [''maven-metadata-plugin'', ''1.0'', ''maven-metadata-plugin-1.0.jar'']"
    by simp
  have g: "[''com'', ''iamkaf''] \<noteq> []" by simp
  have e: "\<not> endsWith ''1.0'' ''-SNAPSHOT''" by (simp add: eval_strings)
  have i: "includes_str ''maven-metadata-plugin-1.0.jar'' ''maven-metadata''"
    by (simp add: eval_strings)
  have j: "endsWith ''maven-metadata-plugin-1.0.jar'' ''.jar''" by (simp add: eval_strings)
  have f: "faults ?b = []" by simp
  note T = snapshot_version_check_substring_exemption [OF a p s g e i f,
      of "\<lambda>xml. None" "\<lambda>doc. ''<metadata/>''"
        "\<lparr>utcFullYear = 2025, utcMonth = 0, utcDate = 21, utcHours = 14, utcMinutes = 30,
         utcSeconds = 52\<rparr>"
        "\<lparr>utcFullYear = 2025, utcMonth = 0, utcDate = 21, utcHours = 14, utcMinutes = 30,
         utcSeconds = 53\<rparr>"]
  have c1: "handleSnapshotPut ?r ?env ?b
      = (Inr okResponse,
         \<lparr>objects = [(''com/iamkaf/maven-metadata-plugin/1.0/maven-metadata-plugin-1.0.jar'',
                       ''jar'')],
          faults = [], list_limit = 1000\<rparr>)"
    using T [THEN conjunct1] by simp
  show ?thesis
    by (intro conjI a s e i j c1 T [THEN conjunct2])
qed

section \<open>Accepted upload extensions\<close>

lemma handleReleasePut_valid_ext:
  assumes "validateBasicAuth request env = Inr True"
    and "pathname request = ''/releases/'' @ mavenPath"
    and "split_on CHR ''/'' mavenPath = gs @ [a, v, f]"
    and "gs \<noteq> []"
    and "list_ex (\<lambda>ext. endsWith f ext) validExtensions"
  shows "fst (handleReleasePut request env b) \<noteq> Inr (errorResponse ''Invalid file type'' 400)"
  unfolding handleReleasePut_parsed [OF assms(1-4)] using assms(5)
  by (auto simp: errorResponse_def okResponse_def split: prod.splits sum.splits bool.splits)

lemma handlePublishPut_valid_ext:
  assumes "validateBasicAuth request env = Inr True"
    and "pathname request = ''/publish/'' @ mavenPath"
    and "split_on CHR ''/'' mavenPath = gs @ [a, v, f]"
    and "gs \<noteq> []"
    and "list_ex (\<lambda>ext. endsWith f ext) validExtensions_publish"
  shows "fst (handlePublishPut request env b) \<noteq> Inr (errorResponse ''Invalid file type'' 400)"
  unfolding handlePublishPut_parsed [OF assms(1-4)] using assms(5)
  by (auto simp: errorResponse_def okResponse_def split: prod.splits sum.splits bool.splits)

text \<open>
  C8, as amended. The extension check differs between the handlers. \<open>handleReleasePut\<close>
  answers 400 \<open>Invalid file type\<close>, storing nothing, exactly when the file name ends in
  none of the nine extensions. \<open>handlePublishPut\<close> and the snapshot handler that computes
  file names do so for seven extensions, the nine less \<open>.sha512\<close> and \<open>.md5\<close>. The
  trusting snapshot handler checks no extension: whatever the file name, an upload under a
  \<open>-SNAPSHOT\<close> version is stored with 200.
\<close>

theorem accepted_upload_extensions:
  assumes "validateBasicAuth request env = Inr True"
    and "split_on CHR ''/'' mavenPath = gs @ [a, v, f]" and "gs \<noteq> []"
  shows "(pathname request = ''/releases/'' @ mavenPath \<longrightarrow>
          (fst (handleReleasePut request env b) = Inr (errorResponse ''Invalid file type'' 400)
             \<longleftrightarrow> \<not> (endsWith f ''.jar'' \<or> endsWith f ''.pom'' \<or> endsWith f ''.module''
                     \<or> endsWith f ''.xml'' \<or> endsWith f ''.sha1'' \<or> endsWith f ''.sha256''
                     \<or> endsWith f ''.sha512'' \<or> endsWith f ''.md5'' \<or> endsWith f ''.asc''))
        \<and> (fst (handleReleasePut request env b) = Inr (errorResponse ''Invalid file type'' 400)
             \<longrightarrow> snd (handleReleasePut request env b) = b))
       \<and> (pathname request = ''/publish/'' @ mavenPath \<longrightarrow>
          (fst (handlePublishPut request env b) = Inr (errorResponse ''Invalid file type'' 400)
             \<longleftrightarrow> \<not> (endsWith f ''.jar'' \<or> endsWith f ''.pom'' \<or> endsWith f ''.module''
                     \<or> endsWith f ''.xml'' \<or> endsWith f ''.sha1'' \<or> endsWith f ''.sha256''
                     \<or> endsWith f ''.asc''))
        \<and> (fst (handlePublishPut request env b) = Inr (errorResponse ''Invalid file type'' 400)
             \<longrightarrow> snd (handlePublishPut request env b) = b))
       \<and> (pathname request = ''/snapshots/'' @ mavenPath \<and> endsWith v ''-SNAPSHOT'' \<longrightarrow>
          (fst (handleSnapshotPut_v1 parse build now1 now2 request env b)
             = Inr (errorResponse ''Invalid file type'' 400)
             \<longleftrightarrow> \<not> (endsWith f ''.jar'' \<or> endsWith f ''.pom'' \<or> endsWith f ''.module''
                     \<or> endsWith f ''.xml'' \<or> endsWith f ''.sha1'' \<or> endsWith f ''.sha256''
                     \<or> endsWith f ''.asc''))
        \<and> (fst (handleSnapshotPut_v1 parse build now1 now2 request env b)
             = Inr (errorResponse ''Invalid file type'' 400)
             \<longrightarrow> snd (handleSnapshotPut_v1 parse build now1 now2 request env b) = b))
       \<and> (pathname request = ''/snapshots/'' @ mavenPath \<and> endsWith v ''-SNAPSHOT''
            \<and> faults b = [] \<longrightarrow>
          handleSnapshotPut request env b
          = (Inr okResponse,
             b\<lparr>objects := AList.update (join_with ''/'' gs @ ''/'' @ a @ ''/'' @ v @ ''/'' @ f)
                            (body request) (objects b)\<rparr>))"
proof -
  have nine: "list_ex (\<lambda>ext. endsWith f ext) validExtensions
      \<longleftrightarrow> (endsWith f ''.jar'' \<or> endsWith f ''.pom'' \<or> endsWith f ''.module''
           \<or> endsWith f ''.xml'' \<or> endsWith f ''.sha1'' \<or> endsWith f ''.sha256''
           \<or> endsWith f ''.sha512'' \<or> endsWith f ''.md5'' \<or> endsWith f ''.asc'')"
    by (simp add: validExtensions_def)
  have seven: "list_ex (\<lambda>ext. endsWith f ext) validExtensions_publish
      \<longleftrightarrow> (endsWith f ''.jar'' \<or> endsWith f ''.pom'' \<or> endsWith f ''.module''
           \<or> endsWith f ''.xml'' \<or> endsWith f ''.sha1'' \<or> endsWith f ''.sha256''
           \<or> endsWith f ''.asc'')"
    by (simp add: validExtensions_publish_def)
  have seven': "list_ex (\<lambda>ext. endsWith f ext) validExtensions_snapshot
      \<longleftrightarrow> (endsWith f ''.jar'' \<or> endsWith f ''.pom'' \<or> endsWith f ''.module''
           \<or> endsWith f ''.xml'' \<or> endsWith f ''.sha1'' \<or> endsWith f ''.sha256''
           \<or> endsWith f ''.asc'')"
    by (simp add: validExtensions_snapshot_def)
  have release: "(fst (handleReleasePut request env b)
                   = Inr (errorResponse ''Invalid file type'' 400)
                 \<longleftrightarrow> \<not> list_ex (\<lambda>ext. endsWith f ext) validExtensions)
        \<and> (fst (handleReleasePut request env b) = Inr (errorResponse ''Invalid file type'' 400)
             \<longrightarrow> snd (handleReleasePut request env b) = b)"
    if p: "pathname request = ''/releases/'' @ mavenPath"
  proof (cases "list_ex (\<lambda>ext. endsWith f ext) validExtensions")
    case True
    with handleReleasePut_valid_ext [OF assms(1) p assms(2,3), of b] show ?thesis by simp
  next
    case False
    with handleReleasePut_parsed [OF assms(1) p assms(2,3), of b] show ?thesis by simp
  qed
  have publish: "(fst (handlePublishPut request env b)
                   = Inr (errorResponse ''Invalid file type'' 400)
                 \<longleftrightarrow> \<not> list_ex (\<lambda>ext. endsWith f ext) validExtensions_publish)
        \<and> (fst (handlePublishPut request env b) = Inr (errorResponse ''Invalid file type'' 400)
             \<longrightarrow> snd (handlePublishPut request env b) = b)"
    if p: "pathname request = ''/publish/'' @ mavenPath"
  proof (cases "list_ex (\<lambda>ext. endsWith f ext) validExtensions_publish")
    case True
    with handlePublishPut_valid_ext [OF assms(1) p assms(2,3), of b] show ?thesis by simp
  next
    case False
    with handlePublishPut_parsed [OF assms(1) p assms(2,3), of b] show ?thesis by simp
  qed
  have computing: "(fst (handleSnapshotPut_v1 parse build now1 now2 request env b)
                   = Inr (errorResponse ''Invalid file type'' 400)
                 \<longleftrightarrow> \<not> list_ex (\<lambda>ext. endsWith f ext) validExtensions_snapshot)
        \<and> (fst (handleSnapshotPut_v1 parse build now1 now2 request env b)
             = Inr (errorResponse ''Invalid file type'' 400)
             \<longrightarrow> snd (handleSnapshotPut_v1 parse build now1 now2 request env b) = b)"
    if p: "pathname request = ''/snapshots/'' @ mavenPath" and sn: "endsWith v ''-SNAPSHOT''"
  proof (cases "list_ex (\<lambda>ext. endsWith f ext) validExtensions_snapshot")
    case True
    obtain x b' where r: "handleSnapshotPut_v1 parse build now1 now2 request env b = (x, b')"
      by (cases "handleSnapshotPut_v1 parse build now1 now2 request env b")
    have "x \<noteq> Inr (errorResponse ''Invalid file type'' 400)"
    proof
      assume "x = Inr (errorResponse ''Invalid file type'' 400)"
      with r handleSnapshotPut_v1_rejects(3) [OF assms(1) p assms(2,3) sn True]
      have "status (errorResponse ''Invalid file type'' 400) = 200" by blast
      then show False by (simp add: errorResponse_def)
    qed
    with r True show ?thesis by simp
  next
    case False
    with handleSnapshotPut_v1_rejects(2) [OF assms(1) p assms(2,3) sn, of parse build now1 now2 b]
    show ?thesis by simp
  qed
  have trusting: "handleSnapshotPut request env b
          = (Inr okResponse,
             b\<lparr>objects := AList.update (join_with ''/'' gs @ ''/'' @ a @ ''/'' @ v @ ''/'' @ f)
                            (body request) (objects b)\<rparr>)"
    if "pathname request = ''/snapshots/'' @ mavenPath" and "endsWith v ''-SNAPSHOT''"
      and "faults b = []"
    using handleSnapshotPut_parsed [OF assms(1) that(1) assms(2,3), of b] that(2,3)
    by (simp add: r2_put_ok)
  from release publish computing trusting show ?thesis
    unfolding nine seven seven' by blast
qed

theorem accepted_upload_extensions_witness:
  "validateBasicAuth
     \<lparr>pathname = ''/releases/'' @ ''com/iamkaf/amber/1.0.0/amber-1.0.0.txt'',
      authorization = Some ''Basic bWF2ZW46c2VjcmV0'', searchParams = [], body = ''text''\<rparr>
     \<lparr>MAVEN_PUBLISH_USERNAME = Some ''maven'', MAVEN_PUBLISH_PASSWORD = Some ''secret''\<rparr>
   = Inr True
   \<and> split_on CHR ''/'' ''com/iamkaf/amber/1.0.0/amber-1.0.0.txt''
     = [''com'', ''iamkaf''] @ [''amber'', ''1.0.0'', ''amber-1.0.0.txt'']
   \<and> [''com'', ''iamkaf''] \<noteq> []
   \<and> \<not> (endsWith ''amber-1.0.0.txt'' ''.jar'' \<or> endsWith ''amber-1.0.0.txt'' ''.pom''
          \<or> endsWith ''amber-1.0.0.txt'' ''.module'' \<or> endsWith ''amber-1.0.0.txt'' ''.xml''
          \<or> endsWith ''amber-1.0.0.txt'' ''.sha1'' \<or> endsWith ''amber-1.0.0.txt'' ''.sha256''
          \<or> endsWith ''amber-1.0.0.txt'' ''.sha512'' \<or> endsWith ''amber-1.0.0.txt'' ''.md5''
          \<or> endsWith ''amber-1.0.0.txt'' ''.asc'')
   \<and> fst (handleReleasePut
        \<lparr>pathname = ''/releases/'' @ ''com/iamkaf/amber/1.0.0/amber-1.0.0.txt'',
         authorization = Some ''Basic bWF2ZW46c2VjcmV0'', searchParams = [], body = ''text''\<rparr>
        \<lparr>MAVEN_PUBLISH_USERNAME = Some ''maven'', MAVEN_PUBLISH_PASSWORD = Some ''secret''\<rparr>
        \<lparr>objects = [], faults = [], list_limit = 1000\<rparr>)
      = Inr (errorResponse ''Invalid file type'' 400)
   \<and> snd (handleReleasePut
        \<lparr>pathname = ''/releases/'' @ ''com/iamkaf/amber/1.0.0/amber-1.0.0.txt'',
         authorization = Some ''Basic bWF2ZW46c2VjcmV0'', searchParams = [], body = ''text''\<rparr>
        \<lparr>MAVEN_PUBLISH_USERNAME = Some ''maven'', MAVEN_PUBLISH_PASSWORD = Some ''secret''\<rparr>
        \<lparr>objects = [], faults = [], list_limit = 1000\<rparr>)
      = \<lparr>objects = [], faults = [], list_limit = 1000\<rparr>"
proof -
  let ?env = "\<lparr>MAVEN_PUBLISH_USERNAME = Some ''maven'', MAVEN_PUBLISH_PASSWORD = Some ''secret''\<rparr>"
  let ?b = "\<lparr>objects = [], faults = [], list_limit = 1000\<rparr>"
  let ?r = "\<lparr>pathname = ''/releases/'' @ ''com/iamkaf/amber/1.0.0/amber-1.0.0.txt'',
      authorization = Some ''Basic bWF2ZW46c2VjcmV0'', searchParams = [], body = ''text''\<rparr>"
  have a: "validateBasicAuth ?r ?env = Inr True" by (simp add: auth_maven_secret)
  have s: "split_on CHR ''/'' ''com/iamkaf/amber/1.0.0/amber-1.0.0.txt''
     = [''com'', ''iamkaf''] @ [''amber'', ''1.0.0'', ''amber-1.0.0.txt'']"
    by simp
  have n: "[''com'', ''iamkaf''] \<noteq> []" by simp
  have e: "\<not> (endsWith ''amber-1.0.0.txt'' ''.jar'' \<or> endsWith ''amber-1.0.0.txt'' ''.pom''
          \<or> endsWith ''amber-1.0.0.txt'' ''.module'' \<or> endsWith ''amber-1.0.0.txt'' ''.xml''
          \<or> endsWith ''amber-1.0.0.txt'' ''.sha1'' \<or> endsWith ''amber-1.0.0.txt'' ''.sha256''
          \<or> endsWith ''amber-1.0.0.txt'' ''.sha512'' \<or> endsWith ''amber-1.0.0.txt'' ''.md5''
          \<or> endsWith ''amber-1.0.0.txt'' ''.asc'')"
    by (simp add: eval_strings)
  have p: "pathname ?r = ''/releases/'' @ ''com/iamkaf/amber/1.0.0/amber-1.0.0.txt''" by simp
  from accepted_upload_extensions [OF a s n, of ?b] p e
  have "fst (handleReleasePut ?r ?env ?b) = Inr (errorResponse ''Invalid file type'' 400)
      \<and> snd (handleReleasePut ?r ?env ?b) = ?b"
    by blast
  with a s n e show ?thesis by blast
qed

text \<open>
  The claim as stated fails in both directions: the trusting snapshot handler stores a
  \<open>.txt\<close> file with 200, and \<open>handlePublishPut\<close> rejects a \<open>.md5\<close> checksum.
\<close>

theorem upload_extensions_counterexample:
  "handleSnapshotPut
     \<lparr>pathname = ''/snapshots/com/iamkaf/amber/1.0-SNAPSHOT/notes.txt'',
      authorization = Some ''Basic bWF2ZW46c2VjcmV0'', searchParams = [], body = ''text''\<rparr>
     \<lparr>MAVEN_PUBLISH_USERNAME = Some ''maven'', MAVEN_PUBLISH_PASSWORD = Some ''secret''\<rparr>
     \<lparr>objects = [], faults = [], list_limit = 1000\<rparr>
   = (Inr okResponse,
      \<lparr>objects = [(''com/iamkaf/amber/1.0-SNAPSHOT/notes.txt'', ''text'')], faults = [],
       list_limit = 1000\<rparr>)
   \<and> \<not> list_ex (\<lambda>ext. endsWith ''notes.txt'' ext) validExtensions
   \<and> handlePublishPut
     \<lparr>pathname = ''/publish/com/iamkaf/amber/1.0.0/amber-1.0.0.jar.md5'',
      authorization = Some ''Basic bWF2ZW46c2VjcmV0'', searchParams = [], body = ''md5''\<rparr>
     \<lparr>MAVEN_PUBLISH_USERNAME = Some ''maven'', MAVEN_PUBLISH_PASSWORD = Some ''secret''\<rparr>
     \<lparr>objects = [], faults = [], list_limit = 1000\<rparr>
   = (Inr (errorResponse ''Invalid file type'' 400),
      \<lparr>objects = [], faults = [], list_limit = 1000\<rparr>)
   \<and> endsWith ''amber-1.0.0.jar.md5'' ''.md5''"
  by (simp add: handleSnapshotPut_def handlePublishPut_def auth_maven_secret Let_def eval_strings
      validExtensions_def validExtensions_publish_def r2_put_ok)


section \<open>The time stamp format\<close>

lemma digit_char_mod: "digit_char (n mod 10) = digit_char n"
  by (simp add: digit_char_def)

lemma string_of_nat_1: "n < 10 \<Longrightarrow> string_of_nat n = [digit_char n]"
  by (subst string_of_nat.simps) simp

lemma string_of_nat_step:
  "10 \<le> n \<Longrightarrow> string_of_nat n = string_of_nat (n div 10) @ [digit_char (n mod 10)]"
  by (subst string_of_nat.simps) simp

lemma string_of_nat_2:
  assumes "10 \<le> n" and "n < 100"
  shows "string_of_nat n = [digit_char (n div 10), digit_char n]"
  using assms by (simp add: string_of_nat_step string_of_nat_1 digit_char_mod)

lemma string_of_nat_4:
  assumes "1000 \<le> n" and "n < 10000"
  shows "string_of_nat n
         = [digit_char (n div 1000), digit_char (n div 100), digit_char (n div 10), digit_char n]"
proof -
  have "string_of_nat n = string_of_nat (n div 10) @ [digit_char n]"
    using assms by (simp add: string_of_nat_step digit_char_mod)
  also have "string_of_nat (n div 10) = string_of_nat (n div 100) @ [digit_char (n div 10)]"
    using assms by (simp add: string_of_nat_step digit_char_mod div_mult2_eq [symmetric])
  also have "string_of_nat (n div 100) = [digit_char (n div 1000), digit_char (n div 100)]"
    using assms string_of_nat_2 [of "n div 100"] by (simp add: div_mult2_eq [symmetric])
  finally show ?thesis by simp
qed

lemma fixed_width_2: "fixed_width 2 n = [digit_char (n div 10), digit_char n]"
  by (simp add: numeral_2_eq_2 digit_char_mod)

lemma fixed_width_4:
  "fixed_width 4 n
   = [digit_char (n div 1000), digit_char (n div 100), digit_char (n div 10), digit_char n]"
proof -
  have four: "(4::nat) = Suc (Suc (Suc (Suc 0)))" by simp
  have d2: "n div 10 div 10 = n div 100" by (simp add: div_mult2_eq)
  have d3: "n div 100 div 10 = n div 1000" by (simp add: div_mult2_eq)
  show ?thesis
    unfolding four by (simp add: digit_char_mod d2 d3)
qed


lemma digit_char_0: "digit_char 0 = CHR ''0''"
  by (simp add: digit_char_def)

lemma padStart_2:
  assumes "n < 100"
  shows "padStart 2 CHR ''0'' (string_of_nat n) = fixed_width 2 n"
proof (cases "n < 10")
  case True
  then show ?thesis
    by (simp add: string_of_nat_1 padStart_def fixed_width_2 digit_char_0)
next
  case False
  with assms show ?thesis
    by (simp add: string_of_nat_2 padStart_def fixed_width_2)
qed

lemma formatTimestamp_spec:
  assumes "1000 \<le> utcFullYear d" and "utcFullYear d < 10000"
    and "utcMonth d < 12" and "utcDate d < 32" and "utcHours d < 24"
    and "utcMinutes d < 60" and "utcSeconds d < 60"
  shows "formatTimestamp d = spec_timestamp_format d"
  using assms
  by (simp add: formatTimestamp_def spec_timestamp_format_def Let_def padStart_2
      string_of_nat_4 fixed_width_4)

lemma length_fixed_width: "length (fixed_width k n) = k"
  by (induction k arbitrary: n) simp_all

lemma length_spec_timestamp_format: "length (spec_timestamp_format d) = 15"
  by (simp add: spec_timestamp_format_def length_fixed_width)

section \<open>Time stamps read as numbers\<close>

lemma is_digit_digit_char: "is_digit (digit_char n)"
proof -
  have "n mod 10 < length ''0123456789''" by simp
  then have "''0123456789'' ! (n mod 10) \<in> set ''0123456789''" by (rule nth_mem)
  then show ?thesis unfolding is_digit_def digit_char_def .
qed

lemma digits_fixed_width: "list_all is_digit (fixed_width k n)"
  by (induction k arbitrary: n) (simp_all add: is_digit_digit_char)

lemma is_digit_not_ws: "is_digit c \<Longrightarrow> \<not> is_ws c"
  by (auto simp: is_digit_def is_ws_def)

lemma is_digit_other:
  assumes "is_digit c"
  shows "c \<noteq> CHR ''.''" "c \<noteq> CHR ''-''" "c \<noteq> CHR ''+''" "c \<noteq> CHR ''I''"
    "c \<notin> set ''xX''" "c \<notin> set ''oO''" "c \<notin> set ''bB''"
  using assms by (auto simp: is_digit_def)

lemma trim_digits:
  assumes "is_digit a" and "is_digit z"
  shows "trim (a # ms @ [z]) = a # ms @ [z]"
  using assms by (simp add: trim_def is_digit_not_ws)

lemma decimal_literal:
  assumes a: "list_all is_digit (a1 # a2 # as)" and b: "list_all is_digit (bs @ [z])"
  shows "Number_js ((a1 # a2 # as) @ ''.'' @ (bs @ [z]))
         = Fin (of_nat (radix_value 10 (a1 # a2 # as))
                + of_nat (radix_value 10 (bs @ [z])) / 10 ^ length (bs @ [z]))"
proof -
  let ?A = "a1 # a2 # as" and ?B = "bs @ [z]"
  let ?t = "?A @ ''.'' @ ?B"
  from a have d1: "is_digit a1" and d2: "is_digit a2" by simp_all
  from b have dz: "is_digit z" by simp
  have t: "trim ?t = ?t"
    using trim_digits [OF d1 dz, of "a2 # as @ ''.'' @ bs"] by simp
  have r: "radix_literal ?t = None"
    using is_digit_other(5-7) [OF d2] by (simp add: radix_literal_def)
  have h: "hd ?t = a1" by simp
  have i: "?t \<noteq> ''Infinity''" using is_digit_other(4) [OF d1] by auto
  have dot: "\<not> is_digit CHR ''.''" by (simp add: is_digit_def)
  have tw: "takeWhile is_digit ?t = ?A"
  proof -
    have "takeWhile is_digit (?A @ (''.'' @ ?B)) = ?A @ takeWhile is_digit (''.'' @ ?B)"
      using a by (intro takeWhile_append2) (auto simp: list_all_iff)
    then show ?thesis using dot by simp
  qed
  have dw: "dropWhile is_digit ?t = ''.'' @ ?B"
  proof -
    have "dropWhile is_digit (?A @ (''.'' @ ?B)) = dropWhile is_digit (''.'' @ ?B)"
      using a by (intro dropWhile_append2) (auto simp: list_all_iff)
    then show ?thesis using dot by simp
  qed
  have twb: "takeWhile is_digit ?B = ?B"
    using b by (simp add: takeWhile_eq_all_conv list_all_iff)
  have dwb: "dropWhile is_digit ?B = []"
    using b by (simp add: dropWhile_eq_Nil_conv list_all_iff)
  have u: "unsigned_decimal ?t
           = Some (of_nat (radix_value 10 ?A) + of_nat (radix_value 10 ?B) / 10 ^ length ?B)"
    unfolding unsigned_decimal_def tw dw
    by (simp add: Let_def twb dwb exponent_part_def del: takeWhile_append dropWhile_append)
  show ?thesis
    unfolding Number_js_def t
    using r h i u is_digit_other(2,3) [OF d1]
    by (simp add: Let_def del: append.simps)
qed

text \<open>
  For a date with a four-digit year the time stamp that \<open>formatTimestamp\<close> writes is a
  decimal literal, eight digits, a dot and six digits: \<open>Number\<close> reads it as a finite number,
  which is what the parser hands back for it.
\<close>

lemma formatTimestamp_reads_as_number:
  assumes "1000 \<le> utcFullYear d" and "utcFullYear d < 10000"
    and "utcMonth d < 12" and "utcDate d < 32" and "utcHours d < 24"
    and "utcMinutes d < 60" and "utcSeconds d < 60"
  shows "\<exists>q. Number_js (formatTimestamp d) = Fin q"
proof -
  let ?y = "utcFullYear d" and ?m = "utcMonth d + 1" and ?d = "utcDate d"
  let ?h = "utcHours d" and ?mi = "utcMinutes d" and ?s = "utcSeconds d"
  let ?A = "digit_char (?y div 1000) # digit_char (?y div 100)
            # [digit_char (?y div 10), digit_char ?y, digit_char (?m div 10), digit_char ?m,
               digit_char (?d div 10), digit_char ?d]"
  let ?B = "[digit_char (?h div 10), digit_char ?h, digit_char (?mi div 10), digit_char ?mi,
             digit_char (?s div 10)] @ [digit_char ?s]"
  have "formatTimestamp d = spec_timestamp_format d"
    using assms by (rule formatTimestamp_spec)
  also have "\<dots> = ?A @ ''.'' @ ?B"
    by (simp add: spec_timestamp_format_def fixed_width_4 fixed_width_2)
  finally have f: "formatTimestamp d = ?A @ ''.'' @ ?B" .
  have a: "list_all is_digit ?A" by (simp add: is_digit_digit_char)
  have b: "list_all is_digit ?B" by (simp add: is_digit_digit_char)
  show ?thesis
    unfolding f decimal_literal [OF a b] by (rule exI) (rule refl)
qed

section \<open>Snapshot build numbers\<close>

lemma formatTimestamp_example:
  "formatTimestamp \<lparr>utcFullYear = 2025, utcMonth = 0, utcDate = 21, utcHours = 14,
                     utcMinutes = 30, utcSeconds = 52\<rparr> = ''20250121.143052''"
  by (simp add: formatTimestamp_def string_of_nat.simps padStart_def digit_char_def)

text \<open>
  C1. The build number is not incremented within one second. The time stamp that the
  worker writes into a version's \<open>maven-metadata.xml\<close> is a decimal literal, which comes
  back from the parser as a number. On a bucket that does not fail, when the version's
  document exists and its snapshot time stamp was parsed as a number,
  \<open>getOrGenerateSnapshotMetadata\<close> gives the new time stamp and the build number 1, whatever
  the build number of the document and whatever the time: the comparison with the string
  \<open>newTimestamp\<close> is false, so the branch that adds one is not taken.
\<close>

theorem snapshot_build_number_not_incremented:
  assumes "faults b = []"
    and "map_of (objects b)
           (groupPath @ ''/'' @ artifactId @ ''/'' @ version @ ''/maven-metadata.xml'') = Some xml"
    and "parse xml = Some parsed"
    and "Option.bind (Option.bind (Option.bind (metadata parsed) md_versioning) v_snapshot)
           snapshot_timestamp = Some (JNumber q)"
  shows "getOrGenerateSnapshotMetadata parse now b groupPath artifactId version
         = (Inr \<lparr>timestamp = formatTimestamp now, buildNumber = 1\<rparr>, b)"
  using assms
  by (simp add: getOrGenerateSnapshotMetadata_def Let_def r2_get_ok strict_eq_def)

lemmas eval_number = Number_js_def trim_def is_ws_def radix_literal_def unsigned_decimal_def
  exponent_part_def digits_only_def is_digit_def radix_value_def digit_value_def radix_digits_def
  Let_def

lemma Number_js_timestamp_example:
  "Number_js ''20250121.143052'' = Fin (20250121143052 / 1000000)"
  by (simp add: eval_number)

text \<open>
  The second upload of a second. The version's document holds the time stamp
  \<open>20250121.143052\<close> and the build number 1, the parser hands the time stamp over as the
  number that \<open>Number\<close> reads from it, and the clock still shows 14:30:52 on 21 January
  2025: the answer is build number 1 again, not 2.
\<close>

theorem snapshot_build_number_not_incremented_witness:
  "faults \<lparr>objects = [(''com/iamkaf/amber/1.0-SNAPSHOT/maven-metadata.xml'',
         ''<metadata><versioning><snapshot><timestamp>20250121.143052</timestamp><buildNumber>1</buildNumber></snapshot></versioning></metadata>'')],
      faults = [], list_limit = 1000\<rparr> = []
   \<and> map_of [(''com/iamkaf/amber/1.0-SNAPSHOT/maven-metadata.xml'',
         ''<metadata><versioning><snapshot><timestamp>20250121.143052</timestamp><buildNumber>1</buildNumber></snapshot></versioning></metadata>'')]
        ''com/iamkaf/amber/1.0-SNAPSHOT/maven-metadata.xml''
      = Some ''<metadata><versioning><snapshot><timestamp>20250121.143052</timestamp><buildNumber>1</buildNumber></snapshot></versioning></metadata>''
   \<and> Number_js ''20250121.143052'' = Fin (20250121143052 / 1000000)
   \<and> formatTimestamp \<lparr>utcFullYear = 2025, utcMonth = 0, utcDate = 21, utcHours = 14,
        utcMinutes = 30, utcSeconds = 52\<rparr> = ''20250121.143052''
   \<and> getOrGenerateSnapshotMetadata
     (\<lambda>xml. if xml = ''<metadata><versioning><snapshot><timestamp>20250121.143052</timestamp><buildNumber>1</buildNumber></snapshot></versioning></metadata>''
        then Some \<lparr>metadata = Some \<lparr>md_groupId = None, md_artifactId = None,
          md_version = None,
          md_versioning = Some \<lparr>v_latest = None, v_release = None,
            v_snapshot = Some \<lparr>snapshot_timestamp
                                  = Some (JNumber (Fin (20250121143052 / 1000000))),
                                snapshot_buildNumber = Some 1\<rparr>,
            v_lastUpdated = None, v_snapshotVersions = None, v_versions = None\<rparr>\<rparr>\<rparr>
        else None)
     \<lparr>utcFullYear = 2025, utcMonth = 0, utcDate = 21, utcHours = 14, utcMinutes = 30,
      utcSeconds = 52\<rparr>
     \<lparr>objects = [(''com/iamkaf/amber/1.0-SNAPSHOT/maven-metadata.xml'',
         ''<metadata><versioning><snapshot><timestamp>20250121.143052</timestamp><buildNumber>1</buildNumber></snapshot></versioning></metadata>'')],
      faults = [], list_limit = 1000\<rparr>
     ''com/iamkaf'' ''amber'' ''1.0-SNAPSHOT''
   = (Inr \<lparr>timestamp = ''20250121.143052'', buildNumber = 1\<rparr>,
      \<lparr>objects = [(''com/iamkaf/amber/1.0-SNAPSHOT/maven-metadata.xml'',
         ''<metadata><versioning><snapshot><timestamp>20250121.143052</timestamp><buildNumber>1</buildNumber></snapshot></versioning></metadata>'')],
       faults = [], list_limit = 1000\<rparr>)"
proof -
  let ?doc = "''<metadata><versioning><snapshot><timestamp>20250121.143052</timestamp><buildNumber>1</buildNumber></snapshot></versioning></metadata>''"
  let ?parsed = "\<lparr>metadata = Some \<lparr>md_groupId = None, md_artifactId = None,
          md_version = None,
          md_versioning = Some \<lparr>v_latest = None, v_release = None,
            v_snapshot = Some \<lparr>snapshot_timestamp
                                  = Some (JNumber (Fin (20250121143052 / 1000000))),
                                snapshot_buildNumber = Some 1\<rparr>,
            v_lastUpdated = None, v_snapshotVersions = None, v_versions = None\<rparr>\<rparr>\<rparr>"
  let ?parse = "\<lambda>xml. if xml = ?doc then Some ?parsed else None"
  let ?b = "\<lparr>objects = [(''com/iamkaf/amber/1.0-SNAPSHOT/maven-metadata.xml'', ?doc)],
      faults = [], list_limit = 1000\<rparr>"
  have f: "faults ?b = []" by simp
  have m: "map_of (objects ?b)
             (''com/iamkaf'' @ ''/'' @ ''amber'' @ ''/'' @ ''1.0-SNAPSHOT'' @ ''/maven-metadata.xml'')
           = Some ?doc" by simp
  have p: "?parse ?doc = Some ?parsed" by simp
  have t: "Option.bind (Option.bind (Option.bind (metadata ?parsed) md_versioning) v_snapshot)
             snapshot_timestamp = Some (JNumber (Fin (20250121143052 / 1000000)))" by simp
  note T = snapshot_build_number_not_incremented [where b = "?b" and parse = "?parse"
      and xml = "?doc" and parsed = "?parsed" and groupPath = "''com/iamkaf''"
      and artifactId = "''amber''" and version = "''1.0-SNAPSHOT''"
      and q = "Fin (20250121143052 / 1000000)"
      and now = "\<lparr>utcFullYear = 2025, utcMonth = 0, utcDate = 21, utcHours = 14,
                  utcMinutes = 30, utcSeconds = 52\<rparr>"]
  have r: "getOrGenerateSnapshotMetadata ?parse
             \<lparr>utcFullYear = 2025, utcMonth = 0, utcDate = 21, utcHours = 14, utcMinutes = 30,
              utcSeconds = 52\<rparr> ?b ''com/iamkaf'' ''amber'' ''1.0-SNAPSHOT''
           = (Inr \<lparr>timestamp = ''20250121.143052'', buildNumber = 1\<rparr>, ?b)"
    using T [OF f m p t] unfolding formatTimestamp_example .
  have m': "map_of [(''com/iamkaf/amber/1.0-SNAPSHOT/maven-metadata.xml'', ?doc)]
        ''com/iamkaf/amber/1.0-SNAPSHOT/maven-metadata.xml'' = Some ?doc" by simp
  show ?thesis
    by (intro conjI f m' Number_js_timestamp_example formatTimestamp_example r)
qed

section \<open>The other cases of the build number\<close>

text \<open>
  Without a document for the version the pair is the time stamp of now and 1. With a
  document whose snapshot time stamp is handed over as a string equal to the new time stamp
  the build number is the document's plus one (one, if it has none); any other parsed
  document gives the new time stamp and 1.
\<close>

lemma getOrGenerateSnapshotMetadata_absent:
  assumes "faults b = []"
    and "map_of (objects b)
           (groupPath @ ''/'' @ artifactId @ ''/'' @ version @ ''/maven-metadata.xml'') = None"
  shows "getOrGenerateSnapshotMetadata parse now b groupPath artifactId version
         = (Inr \<lparr>timestamp = formatTimestamp now, buildNumber = 1\<rparr>, b)"
  using assms by (simp add: getOrGenerateSnapshotMetadata_def Let_def r2_get_ok)

lemma getOrGenerateSnapshotMetadata_present:
  assumes "faults b = []"
    and "map_of (objects b)
           (groupPath @ ''/'' @ artifactId @ ''/'' @ version @ ''/maven-metadata.xml'') = Some xml"
    and "parse xml = Some parsed"
    and "snap = Option.bind (Option.bind (metadata parsed) md_versioning) v_snapshot"
  shows "getOrGenerateSnapshotMetadata parse now b groupPath artifactId version
         = (if Option.bind snap snapshot_timestamp = Some (JString (formatTimestamp now))
            then (Inr \<lparr>timestamp = formatTimestamp now,
                       buildNumber = (case Option.bind snap snapshot_buildNumber of
                                        None \<Rightarrow> 0 | Some n \<Rightarrow> n) + 1\<rparr>, b)
            else (Inr \<lparr>timestamp = formatTimestamp now, buildNumber = 1\<rparr>, b))"
  using assms
  by (simp add: getOrGenerateSnapshotMetadata_def Let_def r2_get_ok strict_eq_def)

section \<open>The document written by updateSnapshotMetadata\<close>

lemma findIndex_less: "findIndex P xs = Some i \<Longrightarrow> i < length xs"
  by (induction xs arbitrary: i) (auto split: if_splits)

lemma upsert_values:
  "Some tv \<in> set (map sv_value (upsertSnapshotVersion old ext tv lu))"
  "set (map sv_value (upsertSnapshotVersion old ext tv lu))
     \<subseteq> insert (Some tv) (set (map sv_value old))"
proof -
  let ?e = "\<lparr>sv_extension = Some ext, sv_classifier = None, sv_value = Some tv,
             sv_updated = Some lu\<rparr>"
  let ?P = "\<lambda>sv. sv_extension sv = Some ext
                 \<and> sv_classifier sv = (if ext = ''jar'' then None else Some ext)"
  show "Some tv \<in> set (map sv_value (upsertSnapshotVersion old ext tv lu))"
  proof (cases "findIndex ?P old")
    case None
    then show ?thesis by (simp add: upsertSnapshotVersion_def)
  next
    case (Some i)
    then have "i < length old" by (rule findIndex_less)
    then have "?e \<in> set (old[i := ?e])" by (rule set_update_memI)
    then have "sv_value ?e \<in> sv_value ` set (old[i := ?e])" by (rule imageI)
    with Some show ?thesis by (simp add: upsertSnapshotVersion_def)
  qed
  show "set (map sv_value (upsertSnapshotVersion old ext tv lu))
     \<subseteq> insert (Some tv) (set (map sv_value old))"
  proof (cases "findIndex ?P old")
    case None
    then show ?thesis by (auto simp: upsertSnapshotVersion_def)
  next
    case (Some i)
    have "set (old[i := ?e]) \<subseteq> insert ?e (set old)" by (rule set_update_subset_insert)
    then have "sv_value ` set (old[i := ?e]) \<subseteq> insert (Some tv) (sv_value ` set old)"
      by auto
    with Some show ?thesis by (simp add: upsertSnapshotVersion_def)
  qed
qed

lemma timestamped_value_not_version:
  "baseVersion @ ''-'' @ ts @ ''-'' @ n \<noteq> baseVersion @ ''-SNAPSHOT''"
proof
  assume "baseVersion @ ''-'' @ ts @ ''-'' @ n = baseVersion @ ''-SNAPSHOT''"
  then have "ts @ ''-'' @ n = ''SNAPSHOT''" by simp
  moreover have "CHR ''-'' \<in> set (ts @ ''-'' @ n)" by simp
  ultimately have "CHR ''-'' \<in> set ''SNAPSHOT''" by simp
  then show False by simp
qed

lemma updateSnapshotMetadata_written:
  assumes "updateSnapshotMetadata parse build now b groupPath artifactId version baseVersion
             snapshotMetadata extension = (Inr u, b')"
  shows "\<exists>old. (map_of (objects b)
                  (groupPath @ ''/'' @ artifactId @ ''/'' @ version @ ''/maven-metadata.xml'')
                = None \<longrightarrow> old = [])
          \<and> objects b' =
              AList.update
                (groupPath @ ''/'' @ artifactId @ ''/'' @ version @ ''/maven-metadata.xml'')
                (build (snapshotDocument groupPath artifactId version snapshotMetadata
                          (remove1 CHR ''.'' (formatTimestamp now))
                          (upsertSnapshotVersion old extension
                             (baseVersion @ ''-'' @ timestamp snapshotMetadata @ ''-''
                              @ string_of_int (buildNumber snapshotMetadata))
                             (remove1 CHR ''.'' (formatTimestamp now)))))
                (objects b)"
proof -
  let ?key = "groupPath @ ''/'' @ artifactId @ ''/'' @ version @ ''/maven-metadata.xml''"
  obtain x b1 where g: "r2_get b ?key = (x, b1)" by (cases "r2_get b ?key")
  from g have ob: "objects b1 = objects b" by (rule r2_get_objects)
  from assms g obtain existing where x: "x = Inr existing"
    by (cases x) (auto simp: updateSnapshotMetadata_def Let_def)
  from g x have ex: "existing = map_of (objects b) ?key"
    by (auto simp: r2_get_def r2_fault_def split: list.splits option.splits)
  let ?olds = "(case existing of
                      None \<Rightarrow> Some []
                    | Some metadataText \<Rightarrow>
                        (case parse metadataText of
                           None \<Rightarrow> None
                         | Some parsed \<Rightarrow>
                             (let rawVersions =
                                    Option.bind
                                      (Option.bind (Option.bind (metadata parsed) md_versioning)
                                         v_snapshotVersions)
                                      snapshotVersion
                              in Some (case rawVersions of
                                         Some (Many xs) \<Rightarrow> xs
                                       | Some (One x) \<Rightarrow> [x]
                                       | None \<Rightarrow> []))))"
  from assms g x obtain old where old: "?olds = Some old"
    by (cases ?olds) (auto simp: updateSnapshotMetadata_def Let_def)
  have none: "existing = None \<longrightarrow> old = []" using old by auto
  from assms g x old
  have "r2_put b1 ?key
          (build (snapshotDocument groupPath artifactId version snapshotMetadata
                          (remove1 CHR ''.'' (formatTimestamp now))
                          (upsertSnapshotVersion old extension
                             (baseVersion @ ''-'' @ timestamp snapshotMetadata @ ''-''
                              @ string_of_int (buildNumber snapshotMetadata))
                             (remove1 CHR ''.'' (formatTimestamp now))))) = (Inr u, b')"
    by (simp add: updateSnapshotMetadata_def Let_def)
  from r2_put_cases [OF this] ob none ex show ?thesis by auto
qed


lemma updateSnapshotMetadata_first:
  assumes "faults b = []"
    and "map_of (objects b)
           (groupPath @ ''/'' @ artifactId @ ''/'' @ version @ ''/maven-metadata.xml'') = None"
  shows "updateSnapshotMetadata parse build now b groupPath artifactId version baseVersion
           snapshotMetadata extension
         = (Inr (),
            b\<lparr>objects :=
                AList.update
                  (groupPath @ ''/'' @ artifactId @ ''/'' @ version @ ''/maven-metadata.xml'')
                  (build (snapshotDocument groupPath artifactId version snapshotMetadata
                            (remove1 CHR ''.'' (formatTimestamp now))
                            (upsertSnapshotVersion [] extension
                               (baseVersion @ ''-'' @ timestamp snapshotMetadata @ ''-''
                                @ string_of_int (buildNumber snapshotMetadata))
                               (remove1 CHR ''.'' (formatTimestamp now)))))
                  (objects b)\<rparr>)"
  using assms by (simp add: updateSnapshotMetadata_def Let_def r2_get_ok r2_put_ok)

text \<open>
  C4, as amended. The one \<open>maven-metadata.xml\<close> that the worker composes itself is the
  version-level document of \<open>updateSnapshotMetadata\<close>. Its \<open>versions\<close> list is the list of
  the \<open>value\<close>s of its \<open>snapshotVersion\<close> entries, in their order, and holds the time-stamped
  value of the upload; its \<open>latest\<close> and \<open>release\<close> are the version directory name. For a
  version \<open>baseVersion-SNAPSHOT\<close> that name is in \<open>versions\<close> only if the version had a
  metadata document before: on the first upload \<open>versions\<close> is the single time-stamped
  value, and \<open>latest\<close> and \<open>release\<close> are not members of it.
\<close>

theorem snapshot_metadata_document:
  assumes "updateSnapshotMetadata parse build now b groupPath artifactId version baseVersion
             snapshotMetadata extension = (Inr u, b')"
    and "metadataKey = groupPath @ ''/'' @ artifactId @ ''/'' @ version @ ''/maven-metadata.xml''"
    and "timestampedValue = baseVersion @ ''-'' @ timestamp snapshotMetadata @ ''-''
                            @ string_of_int (buildNumber snapshotMetadata)"
  shows "\<exists>doc. map_of (objects b') metadataKey = Some (build doc)
           \<and> doc_versions doc = map sv_value (doc_snapshotVersions doc)
           \<and> Some timestampedValue \<in> set (doc_versions doc)
           \<and> doc_latest doc = version \<and> doc_release doc = version
           \<and> (version = baseVersion @ ''-SNAPSHOT'' \<longrightarrow>
                (map_of (objects b) metadataKey = None \<longrightarrow>
                   doc_versions doc = [Some timestampedValue]
                 \<and> Some (doc_latest doc) \<notin> set (doc_versions doc)
                 \<and> Some (doc_release doc) \<notin> set (doc_versions doc))
              \<and> (Some (doc_latest doc) \<in> set (doc_versions doc) \<longrightarrow>
                   map_of (objects b) metadataKey \<noteq> None))"
proof -
  define lu where "lu = remove1 CHR ''.'' (formatTimestamp now)"
  from updateSnapshotMetadata_written [OF assms(1)] obtain old where
    h: "(map_of (objects b)
                  (groupPath @ ''/'' @ artifactId @ ''/'' @ version @ ''/maven-metadata.xml'')
                = None \<longrightarrow> old = [])
          \<and> objects b' =
              AList.update
                (groupPath @ ''/'' @ artifactId @ ''/'' @ version @ ''/maven-metadata.xml'')
                (build (snapshotDocument groupPath artifactId version snapshotMetadata
                          (remove1 CHR ''.'' (formatTimestamp now))
                          (upsertSnapshotVersion old extension
                             (baseVersion @ ''-'' @ timestamp snapshotMetadata @ ''-''
                              @ string_of_int (buildNumber snapshotMetadata))
                             (remove1 CHR ''.'' (formatTimestamp now)))))
                (objects b)" ..
  have none: "map_of (objects b) metadataKey = None \<longrightarrow> old = []"
    unfolding assms(2) by (rule h [THEN conjunct1])
  have ob: "objects b' =
       AList.update metadataKey
         (build (snapshotDocument groupPath artifactId version snapshotMetadata lu
                   (upsertSnapshotVersion old extension timestampedValue lu)))
         (objects b)"
    unfolding assms(2,3) lu_def by (rule h [THEN conjunct2])
  define doc where "doc = snapshotDocument groupPath artifactId version snapshotMetadata lu
                (upsertSnapshotVersion old extension timestampedValue lu)"
  have 1: "map_of (objects b') metadataKey = Some (build doc)"
    unfolding ob doc_def by (rule map_of_update_same)
  have 2: "doc_versions doc = map sv_value (doc_snapshotVersions doc)"
    and 4: "doc_latest doc = version" and 5: "doc_release doc = version"
    by (simp_all add: snapshotDocument_def doc_def)
  have vs: "doc_versions doc
            = map sv_value (upsertSnapshotVersion old extension timestampedValue lu)"
    by (simp add: snapshotDocument_def doc_def)
  have 3: "Some timestampedValue \<in> set (doc_versions doc)"
    unfolding vs by (rule upsert_values(1))
  have ne: "timestampedValue \<noteq> version" if "version = baseVersion @ ''-SNAPSHOT''"
    unfolding assms(3) that by (rule timestamped_value_not_version)
  have first: "doc_versions doc = [Some timestampedValue]"
    if "map_of (objects b) metadataKey = None"
  proof -
    from that none have "old = []" by blast
    then show ?thesis unfolding vs by (simp add: upsertSnapshotVersion_def)
  qed
  have 6: "version = baseVersion @ ''-SNAPSHOT'' \<longrightarrow>
              (map_of (objects b) metadataKey = None \<longrightarrow>
                   doc_versions doc = [Some timestampedValue]
                 \<and> Some (doc_latest doc) \<notin> set (doc_versions doc)
                 \<and> Some (doc_release doc) \<notin> set (doc_versions doc))
              \<and> (Some (doc_latest doc) \<in> set (doc_versions doc) \<longrightarrow>
                   map_of (objects b) metadataKey \<noteq> None)"
  proof (rule impI)
    assume v: "version = baseVersion @ ''-SNAPSHOT''"
    have a: "Some version \<notin> set (doc_versions doc)"
      if "map_of (objects b) metadataKey = None"
      using first [OF that] ne [OF v] by simp
    show "(map_of (objects b) metadataKey = None \<longrightarrow>
                   doc_versions doc = [Some timestampedValue]
                 \<and> Some (doc_latest doc) \<notin> set (doc_versions doc)
                 \<and> Some (doc_release doc) \<notin> set (doc_versions doc))
              \<and> (Some (doc_latest doc) \<in> set (doc_versions doc) \<longrightarrow>
                   map_of (objects b) metadataKey \<noteq> None)"
      unfolding 4 5 using first a by blast
  qed
  show ?thesis
    by (rule exI [of _ doc]) (intro conjI 1 2 3 4 5 6)
qed

theorem snapshot_metadata_document_witness:
  "updateSnapshotMetadata (\<lambda>xml. None) (\<lambda>doc. doc_latest doc)
     \<lparr>utcFullYear = 2025, utcMonth = 0, utcDate = 21, utcHours = 14, utcMinutes = 30,
      utcSeconds = 52\<rparr>
     \<lparr>objects = [], faults = [], list_limit = 1000\<rparr>
     ''com/iamkaf'' ''amber'' ''1.0-SNAPSHOT'' ''1.0''
     \<lparr>timestamp = ''20250121.143052'', buildNumber = 1\<rparr> ''jar''
   = (Inr (),
      \<lparr>objects = [(''com/iamkaf/amber/1.0-SNAPSHOT/maven-metadata.xml'', ''1.0-SNAPSHOT'')],
       faults = [], list_limit = 1000\<rparr>)
   \<and> (\<exists>doc :: SnapshotDocument.
           map_of (objects
                     \<lparr>objects = [(''com/iamkaf/amber/1.0-SNAPSHOT/maven-metadata.xml'',
                                  ''1.0-SNAPSHOT'')],
                      faults = [], list_limit = 1000\<rparr>)
             ''com/iamkaf/amber/1.0-SNAPSHOT/maven-metadata.xml''
             = Some (doc_latest doc)
           \<and> doc_versions doc = [Some ''1.0-20250121.143052-1'']
           \<and> doc_latest doc = ''1.0-SNAPSHOT''
           \<and> Some (doc_latest doc) \<notin> set (doc_versions doc))"
proof -
  let ?now = "\<lparr>utcFullYear = 2025, utcMonth = 0, utcDate = 21, utcHours = 14, utcMinutes = 30,
      utcSeconds = 52\<rparr>"
  let ?b = "\<lparr>objects = [], faults = [], list_limit = 1000\<rparr>"
  let ?b' = "\<lparr>objects = [(''com/iamkaf/amber/1.0-SNAPSHOT/maven-metadata.xml'', ''1.0-SNAPSHOT'')],
       faults = [], list_limit = 1000\<rparr>"
  let ?sm = "\<lparr>timestamp = ''20250121.143052'', buildNumber = 1\<rparr>"
  have run: "updateSnapshotMetadata (\<lambda>xml. None) (\<lambda>doc. doc_latest doc) ?now ?b
               ''com/iamkaf'' ''amber'' ''1.0-SNAPSHOT'' ''1.0'' ?sm ''jar'' = (Inr (), ?b')"
    by (simp add: updateSnapshotMetadata_first snapshotDocument_def)
  have k: "''com/iamkaf/amber/1.0-SNAPSHOT/maven-metadata.xml''
           = ''com/iamkaf'' @ ''/'' @ ''amber'' @ ''/'' @ ''1.0-SNAPSHOT'' @ ''/maven-metadata.xml''"
    by simp
  have t: "''1.0-20250121.143052-1''
           = ''1.0'' @ ''-'' @ timestamp ?sm @ ''-'' @ string_of_int (buildNumber ?sm)"
    by (simp add: string_of_int_def string_of_nat.simps digit_char_def)
  from snapshot_metadata_document [OF run k t] obtain doc :: SnapshotDocument where
    d: "map_of (objects ?b') ''com/iamkaf/amber/1.0-SNAPSHOT/maven-metadata.xml''
          = Some (doc_latest doc)
        \<and> doc_versions doc = map sv_value (doc_snapshotVersions doc)
        \<and> Some ''1.0-20250121.143052-1'' \<in> set (doc_versions doc)
        \<and> doc_latest doc = ''1.0-SNAPSHOT'' \<and> doc_release doc = ''1.0-SNAPSHOT''
        \<and> (''1.0-SNAPSHOT'' = ''1.0'' @ ''-SNAPSHOT'' \<longrightarrow>
             (map_of (objects ?b) ''com/iamkaf/amber/1.0-SNAPSHOT/maven-metadata.xml'' = None \<longrightarrow>
                doc_versions doc = [Some ''1.0-20250121.143052-1'']
              \<and> Some (doc_latest doc) \<notin> set (doc_versions doc)
              \<and> Some (doc_release doc) \<notin> set (doc_versions doc))
           \<and> (Some (doc_latest doc) \<in> set (doc_versions doc) \<longrightarrow>
                map_of (objects ?b) ''com/iamkaf/amber/1.0-SNAPSHOT/maven-metadata.xml'' \<noteq> None))"
    by (elim exE) (rule that)
  have m: "map_of (objects ?b) ''com/iamkaf/amber/1.0-SNAPSHOT/maven-metadata.xml'' = None"
    by simp
  have p: "''1.0-SNAPSHOT'' = ''1.0'' @ ''-SNAPSHOT''" by simp
  note d1 = d [THEN conjunct1]
  note d4 = d [THEN conjunct2, THEN conjunct2, THEN conjunct2, THEN conjunct1]
  note d6 = d [THEN conjunct2, THEN conjunct2, THEN conjunct2, THEN conjunct2, THEN conjunct2,
               THEN mp, OF p, THEN conjunct1, THEN mp, OF m]
  have "\<exists>doc :: SnapshotDocument.
           map_of (objects ?b') ''com/iamkaf/amber/1.0-SNAPSHOT/maven-metadata.xml''
             = Some (doc_latest doc)
           \<and> doc_versions doc = [Some ''1.0-20250121.143052-1'']
           \<and> doc_latest doc = ''1.0-SNAPSHOT''
           \<and> Some (doc_latest doc) \<notin> set (doc_versions doc)"
    by (rule exI [of _ doc])
      (intro conjI d1 d4 d6 [THEN conjunct1] d6 [THEN conjunct2, THEN conjunct1])
  with run show ?thesis by (rule conjI)
qed

text \<open>
  The claim as stated fails on the first upload to \<open>1.0-SNAPSHOT\<close>: in the document that
  is written \<open>latest\<close> and \<open>release\<close> are \<open>1.0-SNAPSHOT\<close> and \<open>versions\<close> holds only
  \<open>1.0-20250121.143052-1\<close>, so neither pointer is a member, and the version directory
  \<open>1.0-SNAPSHOT\<close> that now exists is not in the list either.
\<close>

theorem snapshot_document_pointers_counterexample:
  "doc_latest (snapshotDocument ''com/iamkaf'' ''amber'' ''1.0-SNAPSHOT''
                 \<lparr>timestamp = ''20250121.143052'', buildNumber = 1\<rparr> ''20250121143052''
                 (upsertSnapshotVersion [] ''jar'' ''1.0-20250121.143052-1'' ''20250121143052''))
     = ''1.0-SNAPSHOT''
   \<and> doc_release (snapshotDocument ''com/iamkaf'' ''amber'' ''1.0-SNAPSHOT''
                 \<lparr>timestamp = ''20250121.143052'', buildNumber = 1\<rparr> ''20250121143052''
                 (upsertSnapshotVersion [] ''jar'' ''1.0-20250121.143052-1'' ''20250121143052''))
     = ''1.0-SNAPSHOT''
   \<and> doc_versions (snapshotDocument ''com/iamkaf'' ''amber'' ''1.0-SNAPSHOT''
                 \<lparr>timestamp = ''20250121.143052'', buildNumber = 1\<rparr> ''20250121143052''
                 (upsertSnapshotVersion [] ''jar'' ''1.0-20250121.143052-1'' ''20250121143052''))
     = [Some ''1.0-20250121.143052-1'']
   \<and> Some ''1.0-SNAPSHOT'' \<notin> set [Some ''1.0-20250121.143052-1'']"
  by (simp add: snapshotDocument_def upsertSnapshotVersion_def)

section \<open>The sort of the versions query\<close>

lemmas eval_compare = versionsComparator_def versionsCompareLoop.simps or_zero_def nth_opt_def
  js_neq_def js_positive_def js_negative_def compareVersions_def compareVersionsLoop.simps
  nullish_zero_def

text \<open>
  C5. The sort of \<open>handleGetVersions\<close> does not strip the build metadata. It puts the
  example of the specification into the stated order, but for \<open>9.0.0+1.21.11\<close> and
  \<open>9.0.1+1.21.11\<close>, listed oldest first as Maven writes them, the third parts \<open>0+1\<close> and
  \<open>1+1\<close> are no numbers and both count as 0, the comparator answers 0 and the list stays in
  ascending order. \<open>compareVersions\<close> of the artifact page, which cuts the text from \<open>+\<close> on,
  finds \<open>9.0.1+1.21.11\<close> the newer of the two. Likewise \<open>1.0.3\<close> stays before \<open>1.0.5+b\<close>.
\<close>

theorem versions_sort_build_metadata_not_stripped:
  "array_sort versionsComparator
     [JString ''1.0.0'', JString ''1.2.0'', JString ''1.10.0'', JString ''2.0.0+build5'']
   = Inr [JString ''2.0.0+build5'', JString ''1.10.0'', JString ''1.2.0'', JString ''1.0.0'']
   \<and> versionsComparator (JString ''9.0.0+1.21.11'') (JString ''9.0.1+1.21.11'') = Inr (Fin 0)
   \<and> array_sort versionsComparator [JString ''9.0.0+1.21.11'', JString ''9.0.1+1.21.11'']
     = Inr [JString ''9.0.0+1.21.11'', JString ''9.0.1+1.21.11'']
   \<and> compareVersions ''9.0.1+1.21.11'' ''9.0.0+1.21.11'' = Fin 1
   \<and> array_sort versionsComparator [JString ''1.0.3'', JString ''1.0.5+b'']
     = Inr [JString ''1.0.3'', JString ''1.0.5+b'']
   \<and> compareVersions ''1.0.5+b'' ''1.0.3'' = Fin 2"
  by (simp add: eval_compare eval_number)

section \<open>The other answers of the versions query\<close>

text \<open>
  For a request with both parameters on a bucket that does not fail: 404 when the artifact
  has no \<open>maven-metadata.xml\<close>, and 500 with \<open>Invalid maven-metadata.xml\<close> when the versions
  cannot be read from it.
\<close>

lemma handleGetVersions_absent:
  assumes "map_of (searchParams request) ''group'' = Some groupId" and "groupId \<noteq> []"
    and "map_of (searchParams request) ''artifact'' = Some artifactId" and "artifactId \<noteq> []"
    and "faults b = []"
    and "map_of (objects b)
           (replace_all CHR ''.'' CHR ''/'' groupId @ ''/'' @ artifactId @ ''/maven-metadata.xml'')
         = None"
  shows "handleGetVersions parse request b = (Inr (errorResponse ''Artifact not found'' 404), b)"
  using assms by (simp add: handleGetVersions_def Let_def r2_get_ok)

lemma handleGetVersions_invalid:
  assumes "map_of (searchParams request) ''group'' = Some groupId" and "groupId \<noteq> []"
    and "map_of (searchParams request) ''artifact'' = Some artifactId" and "artifactId \<noteq> []"
    and "faults b = []"
    and "map_of (objects b)
           (replace_all CHR ''.'' CHR ''/'' groupId @ ''/'' @ artifactId @ ''/maven-metadata.xml'')
         = Some xml"
    and "vs = Option.bind (Option.bind (Option.bind (Option.bind (parse xml) metadata)
                 md_versioning) v_versions) versions_version"
    and "vs = None \<or> (\<exists>v. vs = Some (One v) \<and> falsy v)"
  shows "handleGetVersions parse request b
         = (Inr (errorResponse ''Invalid maven-metadata.xml'' 500), b)"
proof -
  from assms(8) have t: "(case vs of None \<Rightarrow> True | Some (One v) \<Rightarrow> falsy v
                                    | Some (Many xs) \<Rightarrow> False)"
    by auto
  show ?thesis
    using assms(1-6) t unfolding assms(7)
    by (simp add: handleGetVersions_def Let_def r2_get_ok)
qed

text \<open>
  When every version is handed over as a string the sort does not throw, and the answer
  lists the versions of the document, rearranged, each with its two booleans.
\<close>

lemma versionsComparator_strings:
  "\<exists>c. versionsComparator (JString sa) (JString sb) = Inr c"
  by (simp add: versionsComparator_def Let_def)

lemma insert_sorted_strings:
  assumes "\<forall>v\<in>set (x # ys). \<exists>s. v = JString s"
  shows "\<exists>zs. insert_sorted versionsComparator x ys = Inr zs \<and> mset zs = add_mset x (mset ys)"
  using assms
proof (induction ys)
  case Nil
  then show ?case by simp
next
  case (Cons y ys)
  from Cons.prems obtain sa sb where x: "x = JString sa" and y: "y = JString sb" by auto
  obtain c where c: "versionsComparator x y = Inr c"
    unfolding x y using versionsComparator_strings by blast
  show ?case
  proof (cases "js_positive c")
    case True
    from Cons.prems have "\<forall>v\<in>set (x # ys). \<exists>s. v = JString s" by simp
    from Cons.IH [OF this] obtain zs where
      "insert_sorted versionsComparator x ys = Inr zs" "mset zs = add_mset x (mset ys)"
      by blast
    with c True show ?thesis by simp
  next
    case False
    with c show ?thesis by simp
  qed
qed

lemma array_sort_strings:
  assumes "\<forall>v\<in>set xs. \<exists>s. v = JString s"
  shows "\<exists>ys. array_sort versionsComparator xs = Inr ys \<and> mset ys = mset xs"
  using assms
proof (induction xs)
  case Nil
  then show ?case by simp
next
  case (Cons x xs)
  from Cons.prems have "\<forall>v\<in>set xs. \<exists>s. v = JString s" by simp
  from Cons.IH [OF this] obtain ys where
    ys: "array_sort versionsComparator xs = Inr ys" "mset ys = mset xs" by blast
  from ys(2) have "set ys = set xs" by (rule mset_eq_setD)
  with Cons.prems have "\<forall>v\<in>set (x # ys). \<exists>s. v = JString s" by simp
  from insert_sorted_strings [OF this] obtain zs where
    "insert_sorted versionsComparator x ys = Inr zs" "mset zs = add_mset x (mset ys)"
    by blast
  with ys show ?case by simp
qed

lemma handleGetVersions_strings:
  assumes "map_of (searchParams request) ''group'' = Some groupId" and "groupId \<noteq> []"
    and "map_of (searchParams request) ''artifact'' = Some artifactId" and "artifactId \<noteq> []"
    and "faults b = []"
    and "map_of (objects b)
           (replace_all CHR ''.'' CHR ''/'' groupId @ ''/'' @ artifactId @ ''/maven-metadata.xml'')
         = Some xml"
    and "vg = Option.bind (Option.bind (parse xml) metadata) md_versioning"
    and "Option.bind (Option.bind vg v_versions) versions_version = Some (Many versionsArray)"
    and "\<forall>v\<in>set versionsArray. \<exists>s. v = JString s"
  shows "\<exists>sortedArray.
           handleGetVersions parse request b
           = (Inr (jsonResponse (JsonVersions
                (map (\<lambda>version.
                        (version,
                         strict_eq version
                           (or_else (Option.bind vg v_latest) (Option.bind vg v_release)),
                         strict_eq version (Option.bind vg v_release))) sortedArray))), b)
           \<and> mset sortedArray = mset versionsArray"
proof -
  from array_sort_strings [OF assms(9)] obtain ys where
    ys: "array_sort versionsComparator versionsArray = Inr ys" "mset ys = mset versionsArray"
    by blast
  have h: "handleGetVersions parse request b
           = (Inr (jsonResponse (JsonVersions
                (map (\<lambda>version.
                        (version,
                         strict_eq version
                           (or_else (Option.bind vg v_latest) (Option.bind vg v_release)),
                         strict_eq version (Option.bind vg v_release))) ys))), b)"
    using assms(1-6) assms(8) [unfolded assms(7)] ys(1) unfolding assms(7)
    by (simp add: handleGetVersions_def Let_def r2_get_ok)
  show ?thesis by (rule exI [of _ ys]) (intro conjI h ys(2))
qed

section \<open>The versions query on versions that read as numbers\<close>

lemma versionsComparator_exn: "versionsComparator a c = Inl e \<Longrightarrow> e = TypeError"
  by (cases a; cases c) (simp_all add: versionsComparator_def Let_def)

lemma versionsComparator_not_string:
  "(\<forall>s. a \<noteq> JString s) \<or> (\<forall>s. c \<noteq> JString s) \<Longrightarrow> versionsComparator a c = Inl TypeError"
  by (cases a; cases c) (simp_all add: versionsComparator_def)

lemma insert_sorted_exn:
  "insert_sorted versionsComparator x ys = Inl e \<Longrightarrow> e = TypeError"
proof (induction ys)
  case Nil
  then show ?case by simp
next
  case (Cons y ys)
  show ?case
  proof (cases "versionsComparator x y")
    case (Inl e')
    with Cons.prems versionsComparator_exn [OF Inl] show ?thesis by simp
  next
    case (Inr c)
    with Cons show ?thesis by (auto split: if_splits sum.splits)
  qed
qed

lemma array_sort_exn: "array_sort versionsComparator xs = Inl e \<Longrightarrow> e = TypeError"
proof (induction xs)
  case Nil
  then show ?case by simp
next
  case (Cons x xs)
  then show ?case by (auto split: sum.splits dest: insert_sorted_exn)
qed

lemma insert_sorted_length:
  "insert_sorted cmp x ys = Inr zs \<Longrightarrow> length zs = Suc (length ys)"
  by (induction ys arbitrary: zs) (auto split: sum.splits if_splits)

lemma array_sort_length: "array_sort cmp xs = Inr ys \<Longrightarrow> length ys = length xs"
  by (induction xs arbitrary: ys) (auto split: sum.splits dest: insert_sorted_length)

lemma array_sort_not_string:
  assumes "2 \<le> length xs" and "\<exists>v\<in>set xs. \<forall>s. v \<noteq> JString s"
  shows "array_sort versionsComparator xs = Inl TypeError"
  using assms
proof (induction xs)
  case Nil
  then show ?case by simp
next
  case (Cons x xs)
  show ?case
  proof (cases "array_sort versionsComparator xs")
    case (Inl e)
    with array_sort_exn [OF Inl] show ?thesis by simp
  next
    case (Inr ys)
    from Cons.prems(1) obtain y xs' where xs: "xs = y # xs'" by (cases xs) auto
    from array_sort_length [OF Inr] xs obtain z zs where ys: "ys = z # zs" by (cases ys) auto
    show ?thesis
    proof (cases "\<forall>s. x \<noteq> JString s")
      case True
      then have "versionsComparator x z = Inl TypeError"
        by (simp add: versionsComparator_not_string)
      with Inr ys show ?thesis by simp
    next
      case False
      with Cons.prems(2) have bad: "\<exists>v\<in>set xs. \<forall>s. v \<noteq> JString s" by auto
      have "xs' = []"
      proof (rule ccontr)
        assume "xs' \<noteq> []"
        with xs have "2 \<le> length xs" by (cases xs') auto
        from Cons.IH [OF this bad] Inr show False by simp
      qed
      with xs bad Inr have "ys = [y]" "\<forall>s. y \<noteq> JString s" by auto
      then have "versionsComparator x y = Inl TypeError"
        by (simp add: versionsComparator_not_string)
      with Inr \<open>ys = [y]\<close> show ?thesis by simp
    qed
  qed
qed

text \<open>
  C9. A document that lists two or more versions of which one reads as a number, such as
  \<open>1.0\<close> and \<open>1.1\<close>, makes the versions query throw. For a request with both parameters, on
  a bucket that does not fail, when the artifact's \<open>maven-metadata.xml\<close> exists and the
  parser hands over an array of at least two versions one of which is not a string,
  \<open>handleGetVersions\<close> ends with a \<open>TypeError\<close> (from \<open>a.split\<close> in the comparator of the sort),
  which \<open>fetch\<close> answers with \<open>Internal server error\<close>, and no list of versions is returned.
\<close>

theorem versions_query_number_like_versions:
  assumes "map_of (searchParams request) ''group'' = Some groupId" and "groupId \<noteq> []"
    and "map_of (searchParams request) ''artifact'' = Some artifactId" and "artifactId \<noteq> []"
    and "faults b = []"
    and "map_of (objects b)
           (replace_all CHR ''.'' CHR ''/'' groupId @ ''/'' @ artifactId @ ''/maven-metadata.xml'')
         = Some xml"
    and "parse xml = Some parsed"
    and "Option.bind (Option.bind (Option.bind (metadata parsed) md_versioning) v_versions)
           versions_version = Some (Many versionsArray)"
    and "2 \<le> length versionsArray"
    and "\<exists>v\<in>set versionsArray. \<forall>s. v \<noteq> JString s"
  shows "handleGetVersions parse request b = (Inl TypeError, b)"
proof -
  have s: "array_sort versionsComparator versionsArray = Inl TypeError"
    using assms(9,10) by (rule array_sort_not_string)
  have vs: "Option.bind (Option.bind (Option.bind (Option.bind (parse xml) metadata)
              md_versioning) v_versions) versions_version = Some (Many versionsArray)"
    using assms(7,8) by simp
  show ?thesis
    using assms(1-6) vs s
    by (simp add: handleGetVersions_def Let_def r2_get_ok)
qed


text \<open>
  The artifact \<open>com.iamkaf:amber\<close> with the versions \<open>1.0\<close> and \<open>1.1\<close>, which the parser hands
  over as the numbers that \<open>Number\<close> reads from them.
\<close>

theorem versions_query_number_like_versions_witness:
  "map_of (searchParams \<lparr>pathname = ''/api/versions'', authorization = None,
      searchParams = [(''group'', ''com.iamkaf''), (''artifact'', ''amber'')], body = []\<rparr>) ''group'' = Some ''com.iamkaf''
   \<and> map_of (searchParams \<lparr>pathname = ''/api/versions'', authorization = None,
      searchParams = [(''group'', ''com.iamkaf''), (''artifact'', ''amber'')], body = []\<rparr>) ''artifact'' = Some ''amber''
   \<and> replace_all CHR ''.'' CHR ''/'' ''com.iamkaf'' @ ''/'' @ ''amber'' @ ''/maven-metadata.xml''
     = ''com/iamkaf/amber/maven-metadata.xml''
   \<and> Number_js ''1.0'' = Fin 1 \<and> Number_js ''1.1'' = Fin (11 / 10)
   \<and> 2 \<le> length [JNumber (Fin 1), JNumber (Fin (11 / 10))]
   \<and> handleGetVersions
       (\<lambda>xml. if xml = ''<metadata><groupId>com.iamkaf</groupId><artifactId>amber</artifactId><versioning><latest>1.1</latest><release>1.1</release><versions><version>1.0</version><version>1.1</version></versions></versioning></metadata>''
        then Some \<lparr>metadata = Some \<lparr>md_groupId = Some ''com.iamkaf'', md_artifactId = Some ''amber'',
          md_version = None,
          md_versioning = Some \<lparr>v_latest = Some (JNumber (Fin (11 / 10))),
            v_release = Some (JNumber (Fin (11 / 10))), v_snapshot = None,
            v_lastUpdated = None, v_snapshotVersions = None,
            v_versions = Some \<lparr>versions_version
              = Some (Many [JNumber (Fin 1), JNumber (Fin (11 / 10))])\<rparr>\<rparr>\<rparr>\<rparr>
        else None)
       \<lparr>pathname = ''/api/versions'', authorization = None,
      searchParams = [(''group'', ''com.iamkaf''), (''artifact'', ''amber'')], body = []\<rparr>
       \<lparr>objects = [(''com/iamkaf/amber/maven-metadata.xml'', ''<metadata><groupId>com.iamkaf</groupId><artifactId>amber</artifactId><versioning><latest>1.1</latest><release>1.1</release><versions><version>1.0</version><version>1.1</version></versions></versioning></metadata>'')],
      faults = [], list_limit = 1000\<rparr>
     = (Inl TypeError,
        \<lparr>objects = [(''com/iamkaf/amber/maven-metadata.xml'', ''<metadata><groupId>com.iamkaf</groupId><artifactId>amber</artifactId><versioning><latest>1.1</latest><release>1.1</release><versions><version>1.0</version><version>1.1</version></versions></versioning></metadata>'')],
      faults = [], list_limit = 1000\<rparr>)"
proof -
  let ?doc = "''<metadata><groupId>com.iamkaf</groupId><artifactId>amber</artifactId><versioning><latest>1.1</latest><release>1.1</release><versions><version>1.0</version><version>1.1</version></versions></versioning></metadata>''"
  let ?parsed = "\<lparr>metadata = Some \<lparr>md_groupId = Some ''com.iamkaf'', md_artifactId = Some ''amber'',
          md_version = None,
          md_versioning = Some \<lparr>v_latest = Some (JNumber (Fin (11 / 10))),
            v_release = Some (JNumber (Fin (11 / 10))), v_snapshot = None,
            v_lastUpdated = None, v_snapshotVersions = None,
            v_versions = Some \<lparr>versions_version
              = Some (Many [JNumber (Fin 1), JNumber (Fin (11 / 10))])\<rparr>\<rparr>\<rparr>\<rparr>"
  let ?parse = "\<lambda>xml. if xml = ?doc then Some ?parsed else None"
  let ?req = "\<lparr>pathname = ''/api/versions'', authorization = None,
      searchParams = [(''group'', ''com.iamkaf''), (''artifact'', ''amber'')], body = []\<rparr>"
  let ?b = "\<lparr>objects = [(''com/iamkaf/amber/maven-metadata.xml'', ?doc)],
      faults = [], list_limit = 1000\<rparr>"
  have g: "map_of (searchParams ?req) ''group'' = Some ''com.iamkaf''" by simp
  have a: "map_of (searchParams ?req) ''artifact'' = Some ''amber''" by simp
  have k: "replace_all CHR ''.'' CHR ''/'' ''com.iamkaf'' @ ''/'' @ ''amber''
             @ ''/maven-metadata.xml'' = ''com/iamkaf/amber/maven-metadata.xml''"
    by (simp add: replace_all_def)
  have n: "Number_js ''1.0'' = Fin 1" "Number_js ''1.1'' = Fin (11 / 10)"
    by (simp_all add: eval_number)
  have f: "faults ?b = []" by simp
  have m: "map_of (objects ?b)
             (replace_all CHR ''.'' CHR ''/'' ''com.iamkaf'' @ ''/'' @ ''amber''
              @ ''/maven-metadata.xml'') = Some ?doc"
    unfolding k by simp
  have p: "?parse ?doc = Some ?parsed" by simp
  have v: "Option.bind (Option.bind (Option.bind (metadata ?parsed) md_versioning) v_versions)
             versions_version = Some (Many [JNumber (Fin 1), JNumber (Fin (11 / 10))])"
    by simp
  have l: "2 \<le> length [JNumber (Fin 1), JNumber (Fin (11 / 10))]" by simp
  have e: "\<exists>v\<in>set [JNumber (Fin 1), JNumber (Fin (11 / 10))]. \<forall>s. v \<noteq> JString s" by simp
  have g0: "''com.iamkaf'' \<noteq> []" and a0: "''amber'' \<noteq> []" by simp_all
  note T = versions_query_number_like_versions [where request = "?req" and b = "?b"
      and parse = "?parse" and xml = "?doc" and parsed = "?parsed"
      and groupId = "''com.iamkaf''" and artifactId = "''amber''"
      and versionsArray = "[JNumber (Fin 1), JNumber (Fin (11 / 10))]"]
  show ?thesis
    by (intro conjI g a k n l T [OF g g0 a a0 f m p v l e])
qed

section \<open>Lemmas on listing and deleting\<close>












section \<open>The purge loop\<close>




section \<open>Purge behaviour\<close>



lemma auth_purge:
  "validateBasicAuth
     \<lparr>pathname = ''/api/purge'', authorization = Some ''Basic bWF2ZW46c2VjcmV0'',
      searchParams = [(''prefix'', ''com.iamkaf.amber'')], body = []\<rparr>
     \<lparr>MAVEN_PUBLISH_USERNAME = Some ''maven'', MAVEN_PUBLISH_PASSWORD = Some ''secret''\<rparr>
   = Inr True"
  by (simp add: auth_maven_secret)

lemmas eval_purge = handlePurge_def auth_purge Let_def replace_all_def purgeLoop.simps r2_list_def
  r2_fault_def r2_delete_def r2_keys_def page_size_def after_cursor_def eval_strings
  exn_message_def

text \<open>
  Three runs of a purge of \<open>com.iamkaf.amber\<close>. On a bucket that does not fail both roots are
  emptied and the other artifact stays. With a page size of one the releases root takes two
  rounds of listing and deleting. When the listing of the snapshots root fails, the
  release that was deleted before stays deleted and is reported, with the error.
\<close>

lemma handlePurge_example:
  "handlePurge
     \<lparr>pathname = ''/api/purge'', authorization = Some ''Basic bWF2ZW46c2VjcmV0'',
      searchParams = [(''prefix'', ''com.iamkaf.amber'')], body = []\<rparr>
     \<lparr>MAVEN_PUBLISH_USERNAME = Some ''maven'', MAVEN_PUBLISH_PASSWORD = Some ''secret''\<rparr>
     \<lparr>objects = [(''snapshots/com/iamkaf/amber/1.0-SNAPSHOT/amber.jar'', ''s''),
                 (''releases/com/iamkaf/amber/1.0/amber.jar'', ''r''),
                 (''releases/com/iamkaf/other/1.0/other.jar'', ''o'')],
      faults = [], list_limit = 1000\<rparr>
   = (Inr (jsonResponse (JsonPurge True
             [''releases/com/iamkaf/amber/1.0/amber.jar'',
              ''snapshots/com/iamkaf/amber/1.0-SNAPSHOT/amber.jar''] None)),
      \<lparr>objects = [(''releases/com/iamkaf/other/1.0/other.jar'', ''o'')],
       faults = [], list_limit = 1000\<rparr>)"
  by (simp add: eval_purge)

lemma handlePurge_pages_example:
  "handlePurge
     \<lparr>pathname = ''/api/purge'', authorization = Some ''Basic bWF2ZW46c2VjcmV0'',
      searchParams = [(''prefix'', ''com.iamkaf.amber'')], body = []\<rparr>
     \<lparr>MAVEN_PUBLISH_USERNAME = Some ''maven'', MAVEN_PUBLISH_PASSWORD = Some ''secret''\<rparr>
     \<lparr>objects = [(''releases/com/iamkaf/amber/1.1/amber.jar'', ''q''),
                 (''releases/com/iamkaf/amber/1.0/amber.jar'', ''r''),
                 (''releases/com/iamkaf/other/1.0/other.jar'', ''o'')],
      faults = [], list_limit = 1\<rparr>
   = (Inr (jsonResponse (JsonPurge True
             [''releases/com/iamkaf/amber/1.0/amber.jar'',
              ''releases/com/iamkaf/amber/1.1/amber.jar''] None)),
      \<lparr>objects = [(''releases/com/iamkaf/other/1.0/other.jar'', ''o'')],
       faults = [], list_limit = 1\<rparr>)"
  by (simp add: eval_purge)

lemma handlePurge_failure_example:
  "handlePurge
     \<lparr>pathname = ''/api/purge'', authorization = Some ''Basic bWF2ZW46c2VjcmV0'',
      searchParams = [(''prefix'', ''com.iamkaf.amber'')], body = []\<rparr>
     \<lparr>MAVEN_PUBLISH_USERNAME = Some ''maven'', MAVEN_PUBLISH_PASSWORD = Some ''secret''\<rparr>
     \<lparr>objects = [(''snapshots/com/iamkaf/amber/1.0-SNAPSHOT/amber.jar'', ''s''),
                 (''releases/com/iamkaf/amber/1.0/amber.jar'', ''r'')],
      faults = [None, None, Some ''boom''], list_limit = 1000\<rparr>
   = (Inr (jsonResponse (JsonPurge False
             [''releases/com/iamkaf/amber/1.0/amber.jar'']
             (Some [''Failed to purge snapshots/com/iamkaf/amber/: boom'']))),
      \<lparr>objects = [(''snapshots/com/iamkaf/amber/1.0-SNAPSHOT/amber.jar'', ''s'')],
       faults = [], list_limit = 1000\<rparr>)"
  by (simp add: eval_purge)


end
